theory Spec2Isabelle
  imports Main "HOL-Library.AList"
begin

section \<open>Strings\<close>

text \<open>
  A JavaScript string is a sequence of UTF-16 code units. The model writes it as a
  \<^typ>\<open>string\<close>, one \<^typ>\<open>char\<close> per code unit, which covers the code units below 256.
  The regular expressions of the scripts have no \<^verbatim>\<open>u\<close> flag, so they work on
  single code units as well.
\<close>

definition is_upper :: "char \<Rightarrow> bool" where
  "is_upper c = (65 \<le> (of_char c :: nat) \<and> (of_char c :: nat) \<le> 90)"

definition is_lower :: "char \<Rightarrow> bool" where
  "is_lower c = (97 \<le> (of_char c :: nat) \<and> (of_char c :: nat) \<le> 122)"

definition is_digit :: "char \<Rightarrow> bool" where
  "is_digit c = (48 \<le> (of_char c :: nat) \<and> (of_char c :: nat) \<le> 57)"

text \<open>The character class \<^verbatim>\<open>[A-Za-z0-9._-]\<close>.\<close>

definition safe_char :: "char \<Rightarrow> bool" where
  "safe_char c =
     (is_upper c \<or> is_lower c \<or> is_digit c \<or> c = CHR ''.'' \<or> c = CHR ''_'' \<or> c = CHR ''-'')"

text \<open>
  \<^verbatim>\<open>s.replace(/re/g, r)\<close> for a regular expression that matches exactly one code unit
  (the code units satisfying \<open>p\<close>) and a replacement \<open>r\<close> without \<^verbatim>\<open>$\<close> patterns: every
  match is replaced, scanning left to right, and the replacement is not scanned again.
\<close>

fun replace_global :: "(char \<Rightarrow> bool) \<Rightarrow> string \<Rightarrow> string \<Rightarrow> string" where
  "replace_global p r [] = []"
| "replace_global p r (c # cs) = (if p c then r else [c]) @ replace_global p r cs"

text \<open>
  \<^verbatim>\<open>String.prototype.trim\<close>: white space and line terminators are removed at both ends.
  Below 256 these are the code units 9 to 13, 32 and 160.
\<close>

definition js_whitespace :: "char \<Rightarrow> bool" where
  "js_whitespace c = ((of_char c :: nat) \<in> {9, 10, 11, 12, 13, 32, 160})"

definition js_trim :: "string \<Rightarrow> string" where
  "js_trim s = rev (dropWhile js_whitespace (rev (dropWhile js_whitespace s)))"

text \<open>\<^verbatim>\<open>s.startsWith(p)\<close> and \<^verbatim>\<open>s.includes(p)\<close>.\<close>

definition startsWith :: "string \<Rightarrow> string \<Rightarrow> bool" where
  "startsWith s p = (take (length p) s = p)"

fun includes_str :: "string \<Rightarrow> string \<Rightarrow> bool" where
  "includes_str [] p = (p = [])"
| "includes_str (c # cs) p = (startsWith (c # cs) p \<or> includes_str cs p)"

text \<open>A double-quoted shell word, as in the template \<^verbatim>\<open>"${x}"\<close>.\<close>

definition quoted :: "string \<Rightarrow> string" where
  "quoted s = ''\"'' @ s @ ''\"''"

section \<open>The branch name sanitizer\<close>

text \<open>
  \<^verbatim>\<open>
  function sanitizeBranchName(branch: string): string {
    return branch
      .replace(/\//g, "__")
      .replace(/[^A-Za-z0-9._-]/g, "_");
  }
  \<close>
\<close>

definition sanitizeBranchName :: "string \<Rightarrow> string" where
  "sanitizeBranchName branch =
     replace_global (\<lambda>c. \<not> safe_char c) ''_''
       (replace_global (\<lambda>c. c = CHR ''/'') ''__'' branch)"

text \<open>
  The two passes in the words of the specification: every \<^verbatim>\<open>/\<close> becomes the two
  characters \<^verbatim>\<open>__\<close>; every character outside the safe set becomes \<^verbatim>\<open>_\<close>.
\<close>

definition spec_slash_pass :: "string \<Rightarrow> string" where
  "spec_slash_pass b = concat (map (\<lambda>c. if c = CHR ''/'' then ''__'' else [c]) b)"

definition spec_unsafe_pass :: "string \<Rightarrow> string" where
  "spec_unsafe_pass b = map (\<lambda>c. if safe_char c then c else CHR ''_'') b"

section \<open>JavaScript values\<close>

text \<open>
  \<^verbatim>\<open>JSON.parse(content) as ProjectConfig\<close> is an unchecked cast: the configuration is
  whatever value the file holds. Numbers are kept abstract (type \<open>'n\<close>); the model needs
  only whether a number is falsy and how it prints. An array carries its elements and the
  named properties assigned to it.
\<close>

datatype 'n jsval =
    JUndefined
  | JNull
  | JBool bool
  | JNum 'n
  | JStr string
  | JArr "'n jsval list" "(string \<times> 'n jsval) list"
  | JObj "(string \<times> 'n jsval) list"

text \<open>
  The errors that can be thrown: an \<^verbatim>\<open>Error\<close> with its message (from the file
  system, the JSON parser or \<^verbatim>\<open>run\<close>), or a \<^verbatim>\<open>TypeError\<close> of the engine or
  of an argument check of the library, whose message text is not modelled.
\<close>

datatype error = Error string | TypeError

definition ebind :: "error + 'a \<Rightarrow> ('a \<Rightarrow> error + 'b) \<Rightarrow> error + 'b" where
  "ebind r f = (case r of Inl e \<Rightarrow> Inl e | Inr x \<Rightarrow> f x)"

text \<open>Truthiness, as used by \<^verbatim>\<open>!x\<close> and \<^verbatim>\<open>x || y\<close>.\<close>

fun truthy :: "('n \<Rightarrow> bool) \<Rightarrow> 'n jsval \<Rightarrow> bool" where
  "truthy nz JUndefined = False"
| "truthy nz JNull = False"
| "truthy nz (JBool b) = b"
| "truthy nz (JNum n) = (\<not> nz n)"
| "truthy nz (JStr s) = (s \<noteq> [])"
| "truthy nz (JArr es ps) = True"
| "truthy nz (JObj ps) = True"

definition js_or :: "('n \<Rightarrow> bool) \<Rightarrow> 'n jsval \<Rightarrow> 'n jsval \<Rightarrow> 'n jsval" where
  "js_or nz a b = (if truthy nz a then a else b)"

definition own_property :: "(string \<times> 'n jsval) list \<Rightarrow> string \<Rightarrow> 'n jsval" where
  "own_property ps k = (case map_of ps k of None \<Rightarrow> JUndefined | Some v \<Rightarrow> v)"

text \<open>
  \<^verbatim>\<open>v.k\<close> for the property names the scripts read (\<^verbatim>\<open>codebase\<close>, \<^verbatim>\<open>remote\<close>,
  \<^verbatim>\<open>defaultBranch\<close>, \<^verbatim>\<open>worktrees\<close>, \<^verbatim>\<open>root\<close>), none of which a built-in prototype
  defines: reading from \<^verbatim>\<open>undefined\<close> or \<^verbatim>\<open>null\<close> throws a \<^verbatim>\<open>TypeError\<close>, a
  primitive has no such property.
\<close>

fun js_get :: "'n jsval \<Rightarrow> string \<Rightarrow> error + 'n jsval" where
  "js_get JUndefined k = Inl TypeError"
| "js_get JNull k = Inl TypeError"
| "js_get (JObj ps) k = Inr (own_property ps k)"
| "js_get (JArr es ps) k = Inr (own_property ps k)"
| "js_get v k = Inr JUndefined"

text \<open>\<^verbatim>\<open>v?.k\<close>: \<^verbatim>\<open>undefined\<close> when \<open>v\<close> is \<^verbatim>\<open>undefined\<close> or \<^verbatim>\<open>null\<close>.\<close>

fun js_get_optional :: "'n jsval \<Rightarrow> string \<Rightarrow> 'n jsval" where
  "js_get_optional JUndefined k = JUndefined"
| "js_get_optional JNull k = JUndefined"
| "js_get_optional (JObj ps) k = own_property ps k"
| "js_get_optional (JArr es ps) k = own_property ps k"
| "js_get_optional v k = JUndefined"

text \<open>
  \<^verbatim>\<open>v.k = x\<close> in strict mode (the scripts are ES modules): the property of an object or
  array is set, in place when the key exists and at the end otherwise; assigning to a
  property of \<^verbatim>\<open>undefined\<close>, \<^verbatim>\<open>null\<close> or a primitive throws a \<^verbatim>\<open>TypeError\<close>.
  The result is the updated \<open>v\<close>.
\<close>

fun js_set :: "'n jsval \<Rightarrow> string \<Rightarrow> 'n jsval \<Rightarrow> error + 'n jsval" where
  "js_set (JObj ps) k x = Inr (JObj (AList.update k x ps))"
| "js_set (JArr es ps) k x = Inr (JArr es (AList.update k x ps))"
| "js_set v k x = Inl TypeError"

text \<open>
  \<^verbatim>\<open>v.a.b = x\<close>: the object \<^verbatim>\<open>v.a\<close> is mutated in place, so \<open>v\<close> holds the updated
  object afterwards.
\<close>

definition js_set_nested :: "'n jsval \<Rightarrow> string \<Rightarrow> string \<Rightarrow> 'n jsval \<Rightarrow> error + 'n jsval" where
  "js_set_nested v a b x =
     ebind (js_get v a) (\<lambda>inner.
     ebind (js_set inner b x) (\<lambda>inner'.
     js_set v a inner'))"

text \<open>The elements of an array, for stating what an assignment leaves alone.\<close>

fun elements :: "'n jsval \<Rightarrow> 'n jsval list" where
  "elements (JArr es ps) = es"
| "elements v = []"

text \<open>
  The three assignments that apply the defaults, the same text in both loaders:
  \<^verbatim>\<open>
  config.codebase.defaultBranch = config.codebase.defaultBranch || "main";
  config.worktrees = config.worktrees || { root: "worktrees" };
  config.worktrees.root = config.worktrees.root || "worktrees";
  \<close>
  The result is the configuration after the assignments, or the \<^verbatim>\<open>TypeError\<close> of the
  first one that throws.
\<close>

definition apply_defaults :: "('n \<Rightarrow> bool) \<Rightarrow> 'n jsval \<Rightarrow> error + 'n jsval" where
  "apply_defaults nz config =
     ebind (ebind (js_get config ''codebase'') (\<lambda>c. js_get c ''defaultBranch'')) (\<lambda>defaultBranch.
     ebind (js_set_nested config ''codebase'' ''defaultBranch''
              (js_or nz defaultBranch (JStr ''main''))) (\<lambda>config1.
     ebind (js_get config1 ''worktrees'') (\<lambda>worktrees.
     ebind (js_set config1 ''worktrees''
              (js_or nz worktrees (JObj [(''root'', JStr ''worktrees'')]))) (\<lambda>config2.
     ebind (ebind (js_get config2 ''worktrees'') (\<lambda>w. js_get w ''root'')) (\<lambda>root.
     js_set_nested config2 ''worktrees'' ''root'' (js_or nz root (JStr ''worktrees'')))))))"

fun join_with :: "string \<Rightarrow> string list \<Rightarrow> string" where
  "join_with sep [] = []"
| "join_with sep [s] = s"
| "join_with sep (s # t # ss) = s @ sep @ join_with sep (t # ss)"

text \<open>
  \<^verbatim>\<open>typeof v === "object" && v !== null\<close>: the values a property can be assigned to.
\<close>

fun is_object :: "'n jsval \<Rightarrow> bool" where
  "is_object (JObj ps) = True"
| "is_object (JArr es ps) = True"
| "is_object v = False"

definition has_own_key :: "(string \<times> 'n jsval) list \<Rightarrow> string \<Rightarrow> bool" where
  "has_own_key ps k = (k \<in> set (map fst ps))"

fun sequence_results :: "(error + 'a) list \<Rightarrow> error + 'a list" where
  "sequence_results [] = Inr []"
| "sequence_results (r # rs) = ebind r (\<lambda>x. ebind (sequence_results rs) (\<lambda>xs. Inr (x # xs)))"

text \<open>
  \<^verbatim>\<open>`${v}`\<close>: the string conversion of a template literal. \<open>ns\<close> prints a number.
  An object is converted by its \<^verbatim>\<open>toString\<close> method. A value read from JSON holds no
  function, so an own property \<^verbatim>\<open>toString\<close> hides the inherited method with something
  that cannot be called; \<^verbatim>\<open>valueOf\<close> then gives no primitive either, and the
  conversion throws a \<^verbatim>\<open>TypeError\<close>. Without such a property an object prints as
  \<^verbatim>\<open>[object Object]\<close>, and an array joins the conversions of its elements with commas
  (nothing for \<^verbatim>\<open>undefined\<close> and \<^verbatim>\<open>null\<close>; the first element that throws makes
  the whole conversion throw), or prints as \<^verbatim>\<open>[object Array]\<close> when an own property
  \<^verbatim>\<open>join\<close> hides the inherited method. The named properties of an array are the
  non-index ones assigned to it.
\<close>

fun to_string :: "('n \<Rightarrow> string) \<Rightarrow> 'n jsval \<Rightarrow> error + string" where
  "to_string ns JUndefined = Inr ''undefined''"
| "to_string ns JNull = Inr ''null''"
| "to_string ns (JBool b) = Inr (if b then ''true'' else ''false'')"
| "to_string ns (JNum n) = Inr (ns n)"
| "to_string ns (JStr s) = Inr s"
| "to_string ns (JArr es ps) =
     (if has_own_key ps ''toString'' then Inl TypeError
      else if has_own_key ps ''join'' then Inr ''[object Array]''
      else ebind (sequence_results
                    (map (\<lambda>e. if e = JUndefined \<or> e = JNull then Inr [] else to_string ns e) es))
             (\<lambda>parts. Inr (join_with '','' parts)))"
| "to_string ns (JObj ps) =
     (if has_own_key ps ''toString'' then Inl TypeError else Inr ''[object Object]'')"

section \<open>Paths\<close>

text \<open>
  \<^verbatim>\<open>join\<close> of \<^verbatim>\<open>node:path\<close> is library code outside the repository. The model
  follows its POSIX implementation: the non-empty arguments are put together with
  \<^verbatim>\<open>/\<close> and the result is normalised; with nothing to join the result is \<^verbatim>\<open>.\<close>.
  Normalising drops empty and \<^verbatim>\<open>.\<close> segments, resolves \<^verbatim>\<open>..\<close> against the segment
  before it (a relative path keeps the \<^verbatim>\<open>..\<close> that are left over, an absolute one
  drops them), and keeps one trailing slash.
\<close>

fun split_slash :: "string \<Rightarrow> string list" where
  "split_slash [] = [[]]"
| "split_slash (c # cs) =
     (if c = CHR ''/'' then [] # split_slash cs
      else (case split_slash cs of [] \<Rightarrow> [[c]] | s # ss \<Rightarrow> (c # s) # ss))"

definition normalize_step :: "bool \<Rightarrow> string list \<Rightarrow> string \<Rightarrow> string list" where
  "normalize_step allowAboveRoot res seg =
     (if seg = [] \<or> seg = ''.'' then res
      else if seg = ''..'' then
        (if res \<noteq> [] \<and> last res \<noteq> ''..'' then butlast res
         else if allowAboveRoot then res @ [''..'']
         else res)
      else res @ [seg])"

definition normalizeString :: "string \<Rightarrow> bool \<Rightarrow> string" where
  "normalizeString path allowAboveRoot =
     join_with ''/'' (foldl (normalize_step allowAboveRoot) [] (split_slash path))"

definition normalize :: "string \<Rightarrow> string" where
  "normalize path =
     (if path = [] then ''.''
      else
        let isAbsolute = (hd path = CHR ''/'');
            trailingSeparator = (last path = CHR ''/'');
            p = normalizeString path (\<not> isAbsolute)
        in if p = [] then (if isAbsolute then ''/'' else if trailingSeparator then ''./'' else ''.'')
           else (if isAbsolute then ''/'' else []) @ p @ (if trailingSeparator then ''/'' else []))"

definition join :: "string list \<Rightarrow> string" where
  "join args =
     (let parts = filter (\<lambda>a. a \<noteq> []) args
      in if parts = [] then ''.'' else normalize (join_with ''/'' parts))"

text \<open>
  Normalised segment lists, for the proofs about \<^verbatim>\<open>join\<close>: no segment is empty, a
  \<^verbatim>\<open>.\<close> or contains a slash, and \<^verbatim>\<open>..\<close> occurs only in front of all other segments,
  and not at all when the path may not leave its root.
\<close>

definition segment_ok :: "string \<Rightarrow> bool" where
  "segment_ok s = (s \<noteq> [] \<and> s \<noteq> ''.'' \<and> CHR ''/'' \<notin> set s)"

definition segments_normal :: "bool \<Rightarrow> string list \<Rightarrow> bool" where
  "segments_normal allowAboveRoot segs =
     (list_all segment_ok segs
      \<and> ''..'' \<notin> set (dropWhile (\<lambda>s. s = ''..'') segs)
      \<and> (allowAboveRoot \<or> ''..'' \<notin> set segs))"

text \<open>
  \<^verbatim>\<open>join\<close> applied to values of the configuration: an argument that is not a string
  fails the argument check of the library with a \<^verbatim>\<open>TypeError\<close>.
\<close>

fun string_args :: "'n jsval list \<Rightarrow> error + string list" where
  "string_args [] = Inr []"
| "string_args (JStr s # vs) = ebind (string_args vs) (\<lambda>ss. Inr (s # ss))"
| "string_args (v # vs) = Inl TypeError"

definition join_values :: "'n jsval list \<Rightarrow> error + string" where
  "join_values vs = ebind (string_args vs) (\<lambda>ss. Inr (join ss))"

section \<open>The process and its environment\<close>

text \<open>
  An external command as \<^verbatim>\<open>execSync\<close> receives it: the command line, whether the
  standard error of the child is piped or inherited, and the working directory.
\<close>

datatype stdio = Pipe | Inherit

record command =
  command_line :: string
  stderr_stdio :: stdio
  cwd :: "string option"

text \<open>What a failed \<^verbatim>\<open>execSync\<close> throws: an object with \<^verbatim>\<open>stderr\<close> and \<^verbatim>\<open>message\<close>.\<close>

record exec_error =
  stderr :: "string option"
  message :: "string option"

text \<open>
  The environment of a script. \<open>'w\<close> is the state of the world outside the process (file
  system, repositories). Checking a path and reading a file do not change it; an
  external command may change it in any way. \<open>META_REPO_ROOT\<close> is
  \<^verbatim>\<open>resolve(__dirname, "../..")\<close>.
\<close>

record ('w, 'n) sys =
  META_REPO_ROOT :: string
  existsSync :: "string \<Rightarrow> 'w \<Rightarrow> bool"
  readFileSync :: "string \<Rightarrow> 'w \<Rightarrow> error + string"
  JSON_parse :: "string \<Rightarrow> error + 'n jsval"
  execSync :: "command \<Rightarrow> 'w \<Rightarrow> (exec_error + string) \<times> 'w"
  number_falsy :: "'n \<Rightarrow> bool"
  number_to_string :: "'n \<Rightarrow> string"

definition CONFIG_PATH :: "('w, 'n) sys \<Rightarrow> string" where
  "CONFIG_PATH sys = join [META_REPO_ROOT sys, ''project.config.json'']"

definition BARE_PATH :: "('w, 'n) sys \<Rightarrow> string" where
  "BARE_PATH sys = join [META_REPO_ROOT sys, ''.bare'']"

text \<open>
  The state of a run: the world, the external commands executed so far and the lines
  written to the console, both in order. A console line is a text or the message of a
  \<^verbatim>\<open>TypeError\<close>.
\<close>

datatype level = Log | Warn | Err

datatype console_text = Text string | TypeErrorMessage

record 'w pstate =
  world :: 'w
  cmds :: "command list"
  console :: "(level \<times> console_text) list"

text \<open>
  A statement returns a value, ends the process (\<^verbatim>\<open>process.exit(n)\<close>) or throws.
\<close>

datatype 'a outcome = Ret 'a | Exit nat | Throw error

type_synonym ('w, 'a) prog = "'w pstate \<Rightarrow> 'a outcome \<times> 'w pstate"

definition return :: "'a \<Rightarrow> ('w, 'a) prog" where
  "return x = (\<lambda>s. (Ret x, s))"

definition bind :: "('w, 'a) prog \<Rightarrow> ('a \<Rightarrow> ('w, 'b) prog) \<Rightarrow> ('w, 'b) prog" where
  "bind m f = (\<lambda>s. case m s of
       (Ret x, s') \<Rightarrow> f x s'
     | (Exit n, s') \<Rightarrow> (Exit n, s')
     | (Throw e, s') \<Rightarrow> (Throw e, s'))"

definition throw :: "error \<Rightarrow> ('w, 'a) prog" where
  "throw e = (\<lambda>s. (Throw e, s))"

definition process_exit :: "nat \<Rightarrow> ('w, 'a) prog" where
  "process_exit n = (\<lambda>s. (Exit n, s))"

text \<open>\<^verbatim>\<open>try { m } catch (e) { h e }\<close>: an exit of the process is not caught.\<close>

definition try_catch :: "('w, 'a) prog \<Rightarrow> (error \<Rightarrow> ('w, 'a) prog) \<Rightarrow> ('w, 'a) prog" where
  "try_catch m h = (\<lambda>s. case m s of
       (Throw e, s') \<Rightarrow> h e s'
     | r \<Rightarrow> r)"

text \<open>A sequence of statements, and a sequence followed by a last statement.\<close>

fun block :: "('w, unit) prog list \<Rightarrow> ('w, unit) prog" where
  "block [] = return ()"
| "block (m # ms) = bind m (\<lambda>_. block ms)"

definition block_then :: "('w, unit) prog list \<Rightarrow> ('w, 'a) prog \<Rightarrow> ('w, 'a) prog" where
  "block_then ms m = bind (block ms) (\<lambda>_. m)"

definition of_result :: "error + 'a \<Rightarrow> ('w, 'a) prog" where
  "of_result r = (case r of Inl e \<Rightarrow> throw e | Inr x \<Rightarrow> return x)"

definition console_write :: "level \<Rightarrow> console_text \<Rightarrow> ('w, unit) prog" where
  "console_write l t = (\<lambda>s. (Ret (), s\<lparr>console := console s @ [(l, t)]\<rparr>))"

definition console_log :: "string \<Rightarrow> ('w, unit) prog" where
  "console_log t = console_write Log (Text t)"

definition console_warn :: "string \<Rightarrow> ('w, unit) prog" where
  "console_warn t = console_write Warn (Text t)"

definition console_error :: "string \<Rightarrow> ('w, unit) prog" where
  "console_error t = console_write Err (Text t)"

text \<open>\<^verbatim>\<open>(error as Error).message\<close> as a console line.\<close>

fun message_text :: "error \<Rightarrow> console_text" where
  "message_text (Error m) = Text m"
| "message_text TypeError = TypeErrorMessage"

definition fs_exists :: "('w, 'n) sys \<Rightarrow> string \<Rightarrow> ('w, bool) prog" where
  "fs_exists sys path = (\<lambda>s. (Ret (existsSync sys path (world s)), s))"

definition fs_read :: "('w, 'n) sys \<Rightarrow> string \<Rightarrow> ('w, string) prog" where
  "fs_read sys path = (\<lambda>s. case readFileSync sys path (world s) of
       Inl e \<Rightarrow> (Throw e, s)
     | Inr content \<Rightarrow> (Ret content, s))"

text \<open>
  \<^verbatim>\<open>execSync\<close> inside \<^verbatim>\<open>run\<close>: the command is recorded and changes the world; a
  failure is rethrown as \<^verbatim>\<open>new Error(stderr || message || "Command failed")\<close>, a
  success returns the trimmed output.
\<close>

definition failure_text :: "exec_error \<Rightarrow> string" where
  "failure_text e =
     (case stderr e of
        Some t \<Rightarrow> if t \<noteq> [] then t
                  else (case message e of Some m \<Rightarrow> if m \<noteq> [] then m else ''Command failed''
                        | None \<Rightarrow> ''Command failed'')
      | None \<Rightarrow> (case message e of Some m \<Rightarrow> if m \<noteq> [] then m else ''Command failed''
                 | None \<Rightarrow> ''Command failed''))"

definition run_command :: "('w, 'n) sys \<Rightarrow> command \<Rightarrow> ('w, string) prog" where
  "run_command sys c = (\<lambda>s.
     case execSync sys c (world s) of
       (Inl e, w') \<Rightarrow> (Throw (Error (failure_text e)), s\<lparr>world := w', cmds := cmds s @ [c]\<rparr>)
     | (Inr out, w') \<Rightarrow> (Ret (js_trim out), s\<lparr>world := w', cmds := cmds s @ [c]\<rparr>))"

text \<open>
  A statement that only adds lines to the console, whatever else it does; for the proofs
  about what a run prints first.
\<close>

definition console_grows :: "('w, 'a) prog \<Rightarrow> bool" where
  "console_grows m = (\<forall>s. \<exists>lines. console (snd (m s)) = console s @ lines)"

text \<open>
  A script ends with \<^verbatim>\<open>main();\<close>. The exit code of the process is 0 when \<^verbatim>\<open>main\<close>
  returns, the argument of \<^verbatim>\<open>process.exit\<close> when that is called, and 1 when an
  exception escapes \<^verbatim>\<open>main\<close> (the runtime's code for an uncaught exception).
\<close>

definition exit_code :: "'a outcome \<Rightarrow> nat" where
  "exit_code r = (case r of Ret x \<Rightarrow> 0 | Exit n \<Rightarrow> n | Throw e \<Rightarrow> 1)"

definition initial :: "'w \<Rightarrow> 'w pstate" where
  "initial w = \<lparr>world = w, cmds = [], console = []\<rparr>"

text \<open>
  The \<^verbatim>\<open>catch\<close> block of \<^verbatim>\<open>loadConfig\<close>, the same text in both scripts.
\<close>

definition parse_failed :: "error \<Rightarrow> ('w, 'a) prog" where
  "parse_failed error =
     block_then
       [console_error ''Error: Failed to parse project.config.json'',
        console_write Err (message_text error)]
       (process_exit 1)"

section \<open>The bootstrap script\<close>

definition nl :: string where
  "nl = [CHR 0x0A]"

text \<open>
  \<^verbatim>\<open>loadConfig\<close> of the bootstrap script. The checks and the defaults are inside the
  \<^verbatim>\<open>try\<close>, so a \<^verbatim>\<open>TypeError\<close> of a property access ends in the \<^verbatim>\<open>catch\<close> too.
\<close>

definition loadConfig_bootstrap :: "('w, 'n) sys \<Rightarrow> ('w, 'n jsval) prog" where
  "loadConfig_bootstrap sys =
     bind (fs_exists sys (CONFIG_PATH sys)) (\<lambda>found.
     if \<not> found then
       block_then
         [console_error (''Error: project.config.json not found at '' @ CONFIG_PATH sys),
          console_error ''Please create project.config.json with codebase.remote and codebase.defaultBranch'']
         (process_exit 1)
     else
       try_catch
         (bind (fs_read sys (CONFIG_PATH sys)) (\<lambda>content.
          bind (of_result (JSON_parse sys content)) (\<lambda>config.
          bind (of_result (js_get config ''codebase'')) (\<lambda>codebase.
          let remote = js_get_optional codebase ''remote'' in
          if \<not> truthy (number_falsy sys) remote
             \<or> (case remote of JStr r \<Rightarrow> js_trim r = [] | _ \<Rightarrow> True)
          then
            block_then
              [console_error ''Error: project.config.json is malformed'',
               console_error ''  - codebase.remote must be a non-empty string (git remote URL)'']
              (process_exit 1)
          else
            of_result (apply_defaults (number_falsy sys) config)))))
         (\<lambda>error. parse_failed error))"

text \<open>\<^verbatim>\<open>run(command, { cwd })\<close>: standard error is always piped.\<close>

definition command_bootstrap :: "string \<Rightarrow> string option \<Rightarrow> command" where
  "command_bootstrap command dir = \<lparr>command_line = command, stderr_stdio = Pipe, cwd = dir\<rparr>"

definition run_bootstrap :: "('w, 'n) sys \<Rightarrow> string \<Rightarrow> string option \<Rightarrow> ('w, string) prog" where
  "run_bootstrap sys command dir = run_command sys (command_bootstrap command dir)"

text \<open>
  \<^verbatim>\<open>cloneBareRepo(remote: string)\<close>. \<^verbatim>\<open>main\<close> passes \<^verbatim>\<open>config.codebase.remote\<close>
  as it is; the string conversion of the first template that uses it is made by the
  caller in the model, just before this function prints.
\<close>

definition cloneBareRepo :: "('w, 'n) sys \<Rightarrow> string \<Rightarrow> ('w, unit) prog" where
  "cloneBareRepo sys remote =
     block
       [console_log (''Cloning bare repository from '' @ remote @ ''...''),
        bind (run_bootstrap sys
                (''git clone --bare '' @ quoted remote @ '' '' @ quoted (BARE_PATH sys)) None)
          (\<lambda>_. return ()),
        console_log ''Bare repository cloned successfully.'']"

definition verifyWorktreePointsToOurBare :: "('w, 'n) sys \<Rightarrow> string \<Rightarrow> ('w, bool) prog" where
  "verifyWorktreePointsToOurBare sys worktreePath =
     (let gitFile = join [worktreePath, ''.git''] in
      bind (fs_exists sys gitFile) (\<lambda>found.
      if \<not> found then return False
      else
        try_catch
          (bind (fs_read sys gitFile) (\<lambda>raw.
           let content = js_trim raw in
           if \<not> startsWith content ''gitdir:'' then return False
           else
             let gitdir = js_trim (drop (length ''gitdir:'') content) in
             return (includes_str gitdir ''.bare'')))
          (\<lambda>_. return False)))"

definition git_rev_parse :: "string \<Rightarrow> string" where
  "git_rev_parse path = ''git -C '' @ quoted path @ '' rev-parse --is-inside-work-tree''"

definition git_worktree_add :: "string \<Rightarrow> string \<Rightarrow> string \<Rightarrow> string" where
  "git_worktree_add bare path branch =
     ''git --git-dir '' @ quoted bare @ '' worktree add '' @ quoted path @ '' '' @ quoted branch"

definition createWorktree_bootstrap :: "('w, 'n) sys \<Rightarrow> 'n jsval \<Rightarrow> ('w, unit) prog" where
  "createWorktree_bootstrap sys config =
     bind (of_result (ebind (ebind (js_get config ''worktrees'') (\<lambda>w. js_get w ''root''))
             (\<lambda>root. join_values [JStr (META_REPO_ROOT sys), root]))) (\<lambda>worktreesRoot.
     let mainWorktreePath = join [worktreesRoot, ''main''] in
     bind (of_result (ebind (js_get config ''codebase'') (\<lambda>c. js_get c ''defaultBranch''))) (\<lambda>branch.
     bind (fs_exists sys mainWorktreePath) (\<lambda>found.
     if found then
       try_catch
         (bind (run_bootstrap sys (git_rev_parse mainWorktreePath) None) (\<lambda>_.
          bind (verifyWorktreePointsToOurBare sys mainWorktreePath) (\<lambda>ours.
          if \<not> ours then
            block_then
              [console_error (''Error: '' @ mainWorktreePath
                 @ '' exists but is not a worktree for our .bare repository.''),
               console_error ''Please remove or rename this directory and run bootstrap again.'']
              (process_exit 1)
          else console_log ''Main worktree already exists and is valid.'')))
         (\<lambda>_.
            block_then
              [console_error (''Error: '' @ mainWorktreePath
                 @ '' exists but is not a valid git worktree.''),
               console_error ''Please remove or rename this directory and run bootstrap again.'']
              (process_exit 1))
     else
       block
         [bind (of_result (to_string (number_to_string sys) branch)) (\<lambda>b.
            console_log (''Creating main worktree for branch '' @ [CHR 0x27] @ b @ [CHR 0x27] @ ''...'')),
          bind (of_result (to_string (number_to_string sys) branch)) (\<lambda>b.
          bind (run_bootstrap sys (git_worktree_add (BARE_PATH sys) mainWorktreePath b) None)
            (\<lambda>_. return ())),
          console_log ''Main worktree created successfully.''])))"

definition enableCorepack :: "('w, 'n) sys \<Rightarrow> ('w, unit) prog" where
  "enableCorepack sys =
     block
       [console_log ''Enabling corepack...'',
        try_catch
          (block
             [bind (run_bootstrap sys ''corepack enable'' None) (\<lambda>_. return ()),
              console_log ''Corepack enabled.''])
          (\<lambda>error.
             block
               [console_warn
                  (''Warning: Failed to enable corepack. You may need to run ''
                   @ [CHR 0x27] @ ''corepack enable'' @ [CHR 0x27] @ '' manually.''),
                console_write Warn (message_text error)])]"

definition installDependencies_bootstrap :: "('w, 'n) sys \<Rightarrow> 'n jsval \<Rightarrow> ('w, unit) prog" where
  "installDependencies_bootstrap sys config =
     bind (of_result (ebind (ebind (js_get config ''worktrees'') (\<lambda>w. js_get w ''root''))
             (\<lambda>root. join_values [JStr (META_REPO_ROOT sys), root]))) (\<lambda>worktreesRoot.
     let mainWorktreePath = join [worktreesRoot, ''main''] in
     block
       [console_log ''Installing dependencies in main worktree...'',
        try_catch
          (block
             [bind (run_bootstrap sys ''pnpm install'' (Some mainWorktreePath)) (\<lambda>_. return ()),
              console_log ''Dependencies installed successfully.''])
          (\<lambda>error.
             block_then
               [console_error ''Error: Failed to install dependencies.'',
                console_write Err (message_text error)]
               (process_exit 1))])"

definition main_bootstrap :: "('w, 'n) sys \<Rightarrow> ('w, unit) prog" where
  "main_bootstrap sys =
     bind (console_log (''=== Bootstrap: Setting up monorepo ==='' @ nl)) (\<lambda>_.
     bind (loadConfig_bootstrap sys) (\<lambda>config.
     bind (console_log (''Meta-repo root: '' @ META_REPO_ROOT sys)) (\<lambda>_.
     bind (of_result (ebind (js_get config ''codebase'') (\<lambda>c. js_get c ''remote''))) (\<lambda>remote.
     bind (bind (of_result (to_string (number_to_string sys) remote)) (\<lambda>r.
             console_log (''Codebase remote: '' @ r))) (\<lambda>_.
     bind (of_result (ebind (js_get config ''codebase'') (\<lambda>c. js_get c ''defaultBranch''))) (\<lambda>branch.
     bind (bind (of_result (to_string (number_to_string sys) branch)) (\<lambda>b.
             console_log (''Default branch: '' @ b @ nl))) (\<lambda>_.
     bind (fs_exists sys (BARE_PATH sys)) (\<lambda>bare.
     bind (if \<not> bare then
             bind (of_result (ebind (js_get config ''codebase'') (\<lambda>c. js_get c ''remote'')))
               (\<lambda>remote. bind (of_result (to_string (number_to_string sys) remote))
                  (\<lambda>r. cloneBareRepo sys r))
           else console_log ''Bare repository already exists.'') (\<lambda>_.
     bind (createWorktree_bootstrap sys config) (\<lambda>_.
     bind (enableCorepack sys) (\<lambda>_.
     bind (installDependencies_bootstrap sys config) (\<lambda>_.
     bind (console_log (nl @ ''=== Bootstrap complete! ==='')) (\<lambda>_.
     bind (of_result (ebind (ebind (js_get config ''worktrees'') (\<lambda>w. js_get w ''root''))
             (\<lambda>root. join_values [JStr (META_REPO_ROOT sys), root, JStr ''main'']))) (\<lambda>path.
     console_log (nl @ ''You can now work in: '' @ path)))))))))))))))"

section \<open>The worktree-creation script\<close>

text \<open>
  \<^verbatim>\<open>loadConfig\<close> of the worktree-creation script: the only check of the remote is
  \<^verbatim>\<open>!config.codebase?.remote\<close>.
\<close>

definition loadConfig_wt :: "('w, 'n) sys \<Rightarrow> ('w, 'n jsval) prog" where
  "loadConfig_wt sys =
     bind (fs_exists sys (CONFIG_PATH sys)) (\<lambda>found.
     if \<not> found then
       block_then
         [console_error (''Error: project.config.json not found at '' @ CONFIG_PATH sys)]
         (process_exit 1)
     else
       try_catch
         (bind (fs_read sys (CONFIG_PATH sys)) (\<lambda>content.
          bind (of_result (JSON_parse sys content)) (\<lambda>config.
          bind (of_result (js_get config ''codebase'')) (\<lambda>codebase.
          let remote = js_get_optional codebase ''remote'' in
          if \<not> truthy (number_falsy sys) remote
          then
            block_then
              [console_error ''Error: project.config.json is malformed - missing codebase.remote'']
              (process_exit 1)
          else
            of_result (apply_defaults (number_falsy sys) config)))))
         (\<lambda>error. parse_failed error))"

text \<open>\<^verbatim>\<open>run(command, { cwd, silent })\<close>: standard error is piped only when silent.\<close>

definition command_wt :: "string \<Rightarrow> string option \<Rightarrow> bool \<Rightarrow> command" where
  "command_wt command dir silent =
     \<lparr>command_line = command, stderr_stdio = (if silent then Pipe else Inherit), cwd = dir\<rparr>"

definition run_wt :: "('w, 'n) sys \<Rightarrow> string \<Rightarrow> string option \<Rightarrow> bool \<Rightarrow> ('w, string) prog" where
  "run_wt sys command dir silent = run_command sys (command_wt command dir silent)"

definition git_fetch :: "string \<Rightarrow> string" where
  "git_fetch bare = ''git --git-dir '' @ quoted bare @ '' fetch --all --prune''"

definition fetchLatest :: "('w, 'n) sys \<Rightarrow> ('w, unit) prog" where
  "fetchLatest sys =
     block
       [console_log ''Fetching latest from remote...'',
        try_catch
          (block
             [bind (run_wt sys (git_fetch (BARE_PATH sys)) None False) (\<lambda>_. return ()),
              console_log ''Fetch complete.''])
          (\<lambda>error.
             block
               [console_warn ''Warning: Failed to fetch from remote. Continuing with local state.'',
                console_write Warn (message_text error)])]"

datatype ref_type = Local | Remote

definition git_show_ref :: "string \<Rightarrow> string \<Rightarrow> string" where
  "git_show_ref bare ref = ''git --git-dir '' @ quoted bare @ '' show-ref --verify --quiet '' @ quoted ref"

definition branch_ref :: "string \<Rightarrow> ref_type \<Rightarrow> string" where
  "branch_ref branch type =
     (case type of Local \<Rightarrow> ''refs/heads/'' @ branch | Remote \<Rightarrow> ''refs/remotes/origin/'' @ branch)"

definition branchExists :: "('w, 'n) sys \<Rightarrow> string \<Rightarrow> ref_type \<Rightarrow> ('w, bool) prog" where
  "branchExists sys branch type =
     try_catch
       (bind (run_wt sys (git_show_ref (BARE_PATH sys) (branch_ref branch type)) None True)
          (\<lambda>_. return True))
       (\<lambda>_. return False)"

definition git_worktree_add_new :: "string \<Rightarrow> string \<Rightarrow> string \<Rightarrow> string" where
  "git_worktree_add_new bare branch path =
     ''git --git-dir '' @ quoted bare @ '' worktree add -b '' @ quoted branch @ '' '' @ quoted path"

definition createWorktree_wt :: "('w, 'n) sys \<Rightarrow> string \<Rightarrow> string \<Rightarrow> bool \<Rightarrow> ('w, unit) prog" where
  "createWorktree_wt sys branch worktreePath createNewBranch =
     (if createNewBranch then
        block
          [console_log (''Creating new branch '' @ [CHR 0x27] @ branch @ [CHR 0x27] @ '' and worktree...''),
           bind (run_wt sys (git_worktree_add_new (BARE_PATH sys) branch worktreePath) None False)
             (\<lambda>_. return ())]
      else
        block
          [console_log (''Creating worktree for existing branch '' @ [CHR 0x27] @ branch @ [CHR 0x27] @ ''...''),
           bind (run_wt sys (git_worktree_add (BARE_PATH sys) worktreePath branch) None False)
             (\<lambda>_. return ())])"

definition git_branch_track :: "string \<Rightarrow> string \<Rightarrow> string" where
  "git_branch_track bare branch =
     ''git --git-dir '' @ quoted bare @ '' branch '' @ quoted branch @ '' '' @ quoted (''origin/'' @ branch)"

definition createTrackingBranch :: "('w, 'n) sys \<Rightarrow> string \<Rightarrow> ('w, unit) prog" where
  "createTrackingBranch sys branch =
     block
       [console_log (''Creating local branch '' @ [CHR 0x27] @ branch @ [CHR 0x27] @ '' tracking ''
          @ [CHR 0x27] @ ''origin/'' @ branch @ [CHR 0x27] @ ''...''),
        bind (run_wt sys (git_branch_track (BARE_PATH sys) branch) None False) (\<lambda>_. return ())]"

definition installDependencies_wt :: "('w, 'n) sys \<Rightarrow> string \<Rightarrow> ('w, unit) prog" where
  "installDependencies_wt sys worktreePath =
     block
       [console_log ''Installing dependencies...'',
        try_catch
          (block
             [bind (run_wt sys ''pnpm install'' (Some worktreePath) False) (\<lambda>_. return ()),
              console_log ''Dependencies installed successfully.''])
          (\<lambda>error.
             block_then
               [console_error ''Error: Failed to install dependencies.'',
                console_write Err (message_text error)]
               (process_exit 1))]"

text \<open>
  The three-way branch resolution of \<^verbatim>\<open>main\<close> (the \<^verbatim>\<open>if\<close> chain on
  \<^verbatim>\<open>localExists\<close> and \<^verbatim>\<open>remoteExists\<close>).
\<close>

definition resolve_branch :: "('w, 'n) sys \<Rightarrow> string \<Rightarrow> string \<Rightarrow> ('w, unit) prog" where
  "resolve_branch sys branch worktreePath =
     bind (branchExists sys branch Local) (\<lambda>localExists.
     bind (branchExists sys branch Remote) (\<lambda>remoteExists.
     if localExists then
       block
         [console_log (''Local branch '' @ [CHR 0x27] @ branch @ [CHR 0x27] @ '' exists.''),
          createWorktree_wt sys branch worktreePath False]
     else if remoteExists then
       block
         [console_log (''Remote branch '' @ [CHR 0x27] @ ''origin/'' @ branch @ [CHR 0x27]
            @ '' exists, creating local tracking branch.''),
          createTrackingBranch sys branch,
          createWorktree_wt sys branch worktreePath False]
     else
       block
         [console_log (''Branch '' @ [CHR 0x27] @ branch @ [CHR 0x27]
            @ '' doesn'' @ [CHR 0x27] @ ''t exist, creating new branch.''),
          createWorktree_wt sys branch worktreePath True]))"

definition main_wt :: "('w, 'n) sys \<Rightarrow> string list \<Rightarrow> ('w, unit) prog" where
  "main_wt sys args =
     (case args of
        [] \<Rightarrow>
          block_then
            [console_error ''Usage: create-worktree <branch-name>'',
             console_error ''Example: create-worktree feature/my-feature'']
            (process_exit 1)
      | branch # _ \<Rightarrow>
          bind (loadConfig_wt sys) (\<lambda>config.
          let sanitizedName = sanitizeBranchName branch in
          bind (of_result (ebind (ebind (js_get config ''worktrees'') (\<lambda>w. js_get w ''root''))
                  (\<lambda>root. join_values [JStr (META_REPO_ROOT sys), root]))) (\<lambda>worktreesRoot.
          let worktreePath = join [worktreesRoot, sanitizedName] in
          block
            [console_log (''=== Creating worktree for branch '' @ [CHR 0x27] @ branch @ [CHR 0x27]
               @ '' ==='' @ nl),
             console_log (''Branch name: '' @ branch),
             console_log (''Folder name: '' @ sanitizedName),
             console_log (''Worktree path: '' @ worktreePath @ nl),
             bind (fs_exists sys (BARE_PATH sys)) (\<lambda>bare.
               if \<not> bare then
                 block_then
                   [console_error ''Error: .bare repository not found.'',
                    console_error (''Please run '' @ [CHR 0x27] @ ''pnpm bootstrap'' @ [CHR 0x27]
                      @ '' first to set up the repository.'')]
                   (process_exit 1)
               else return ()),
             bind (fs_exists sys worktreePath) (\<lambda>found.
               if found then
                 block_then
                   [console_error (''Error: Worktree folder already exists at '' @ worktreePath),
                    console_error ''If you want to recreate it, first remove it with:'',
                    console_error (''  git --git-dir '' @ quoted (BARE_PATH sys)
                      @ '' worktree remove --force '' @ quoted worktreePath)]
                   (process_exit 1)
               else return ()),
             fetchLatest sys,
             resolve_branch sys branch worktreePath,
             console_log (''Worktree created successfully.'' @ nl),
             installDependencies_wt sys worktreePath,
             console_log (nl @ ''=== Worktree ready! ===''),
             console_log (nl @ ''You can now work in: '' @ worktreePath),
             console_log (''  cd '' @ worktreePath)])))"

section \<open>Example environments\<close>

text \<open>
  Concrete environments for running the scripts: the meta-repository is \<^verbatim>\<open>/repo\<close>, a path
  exists when it is a listed directory or a listed file, a command fails when its command
  line is listed as failing and prints nothing otherwise, and no command changes the file
  system. The parser knows two configuration texts, neither of which holds a number.
\<close>

definition demo_config_text :: string where
  "demo_config_text = ''{\"codebase\":{\"remote\":\"git@host:org/repo.git\"}}''"

definition demo_blank_text :: string where
  "demo_blank_text = ''{\"codebase\":{\"remote\":\"   \"}}''"

definition demo_parse :: "string \<Rightarrow> error + unit jsval" where
  "demo_parse content =
     (if content = demo_config_text then
        Inr (JObj [(''codebase'', JObj [(''remote'', JStr ''git@host:org/repo.git'')])])
      else if content = demo_blank_text then
        Inr (JObj [(''codebase'', JObj [(''remote'', JStr ''   '')])])
      else Inl (Error ''Unexpected token''))"

definition demo_sys :: "string list \<Rightarrow> (string \<times> string) list \<Rightarrow> string list \<Rightarrow> (unit, unit) sys" where
  "demo_sys dirs files failing =
     \<lparr>META_REPO_ROOT = ''/repo'',
      existsSync = (\<lambda>path w. path \<in> set (dirs @ map fst files)),
      readFileSync = (\<lambda>path w. case map_of files path of
                        None \<Rightarrow> Inl (Error ''ENOENT'') | Some content \<Rightarrow> Inr content),
      JSON_parse = demo_parse,
      execSync = (\<lambda>c w. (if command_line c \<in> set failing
                            then Inl \<lparr>stderr = Some ''failed'', message = None\<rparr>
                            else Inr [], w)),
      number_falsy = (\<lambda>n. True),
      number_to_string = (\<lambda>n. ''0'')\<rparr>"

section \<open>Properties of the sanitizer\<close>

lemma replace_global_append:
  "replace_global p r (xs @ ys) = replace_global p r xs @ replace_global p r ys"
  by (induction xs) simp_all

lemma slash_not_safe: "\<not> safe_char (CHR ''/'')"
  by (simp add: safe_char_def is_upper_def is_lower_def is_digit_def)

lemma underscore_safe: "safe_char (CHR ''_'')"
  by (simp add: safe_char_def)

lemma sanitize_Nil: "sanitizeBranchName [] = []"
  by (simp add: sanitizeBranchName_def)

lemma sanitize_Cons:
  "sanitizeBranchName (c # cs) =
     (if c = CHR ''/'' then ''__'' else if safe_char c then [c] else ''_'') @ sanitizeBranchName cs"
  by (simp add: sanitizeBranchName_def replace_global_append underscore_safe slash_not_safe)

lemma sanitize_append:
  "sanitizeBranchName (xs @ ys) = sanitizeBranchName xs @ sanitizeBranchName ys"
  by (simp add: sanitizeBranchName_def replace_global_append)

lemma sanitize_all_safe: "c \<in> set (sanitizeBranchName b) \<Longrightarrow> safe_char c"
  by (induction b) (auto simp: sanitize_Nil sanitize_Cons underscore_safe split: if_splits)

lemma sanitize_safe_id: "\<forall>c \<in> set b. safe_char c \<Longrightarrow> sanitizeBranchName b = b"
proof (induction b)
  case Nil
  show ?case by (simp add: sanitize_Nil)
next
  case (Cons c cs)
  then have "safe_char c" and "c \<noteq> CHR ''/''"
    using slash_not_safe by auto
  with Cons show ?case by (simp add: sanitize_Cons)
qed

text \<open>
  Claim C2. For every branch name \<open>b\<close>, \<open>sanitizeBranchName b\<close> is the result of first
  replacing every \<^verbatim>\<open>/\<close> by \<^verbatim>\<open>__\<close> and then replacing every character outside
  \<^verbatim>\<open>[A-Za-z0-9._-]\<close> by \<^verbatim>\<open>_\<close>. The order is this one: on \<^verbatim>\<open>a/b\<close> the code gives
  \<^verbatim>\<open>a__b\<close>, where the passes in the other order would give \<^verbatim>\<open>a_b\<close>.
\<close>

theorem C2_sanitize_two_passes:
  "sanitizeBranchName b = spec_unsafe_pass (spec_slash_pass b)
   \<and> sanitizeBranchName ''a/b'' = ''a__b''
   \<and> spec_slash_pass (spec_unsafe_pass ''a/b'') = ''a_b''"
proof -
  have u: "replace_global (\<lambda>c. \<not> safe_char c) ''_'' x = spec_unsafe_pass x" for x
    by (induction x) (simp_all add: spec_unsafe_pass_def)
  have "replace_global (\<lambda>c. c = CHR ''/'') ''__'' b = spec_slash_pass b"
    by (induction b) (simp_all add: spec_slash_pass_def)
  with u have "sanitizeBranchName b = spec_unsafe_pass (spec_slash_pass b)"
    by (simp add: sanitizeBranchName_def)
  moreover have "sanitizeBranchName ''a/b'' = ''a__b''"
    by (simp add: sanitize_Cons sanitize_Nil safe_char_def is_upper_def is_lower_def is_digit_def)
  moreover have "spec_slash_pass (spec_unsafe_pass ''a/b'') = ''a_b''"
    by (simp add: spec_unsafe_pass_def spec_slash_pass_def safe_char_def
        is_upper_def is_lower_def is_digit_def)
  ultimately show ?thesis by simp
qed

text \<open>
  Claim C8. For every branch name, every character of the sanitizer's output lies in
  \<^verbatim>\<open>[A-Za-z0-9._-]\<close>; the output has no \<^verbatim>\<open>/\<close>; and a character of the input that is
  already in the set is kept as it is, at its place: the output is the sanitized text
  before it, the character, and the sanitized text after it.
\<close>

theorem C8_sanitize_output_safe:
  "(\<forall>c \<in> set (sanitizeBranchName b). safe_char c)
   \<and> CHR ''/'' \<notin> set (sanitizeBranchName b)
   \<and> (\<forall>xs c ys. b = xs @ c # ys \<and> safe_char c \<longrightarrow>
        sanitizeBranchName b = sanitizeBranchName xs @ c # sanitizeBranchName ys)"
proof -
  have safe: "\<forall>c \<in> set (sanitizeBranchName b). safe_char c"
    using sanitize_all_safe by blast
  then have "CHR ''/'' \<notin> set (sanitizeBranchName b)"
    using slash_not_safe by blast
  moreover have "sanitizeBranchName (xs @ c # ys) = sanitizeBranchName xs @ c # sanitizeBranchName ys"
    if "safe_char c" for xs c ys
  proof -
    from that have "c \<noteq> CHR ''/''" using slash_not_safe by auto
    with that show ?thesis by (simp add: sanitize_append sanitize_Cons)
  qed
  ultimately show ?thesis using safe by blast
qed

theorem C8_sanitize_output_safe_witness:
  "sanitizeBranchName ''bug#1'' = sanitizeBranchName ''bug#'' @ CHR ''1'' # sanitizeBranchName ''''
   \<and> safe_char (CHR ''1'')
   \<and> CHR ''_'' \<in> set (sanitizeBranchName ''bug#1'') \<and> safe_char (CHR ''_'')"
proof -
  have s: "safe_char (CHR ''1'')"
    by (simp add: safe_char_def is_digit_def)
  have m: "CHR ''_'' \<in> set (sanitizeBranchName ''bug#1'')"
    by (simp add: sanitize_Cons sanitize_Nil safe_char_def is_upper_def is_lower_def is_digit_def)
  from C8_sanitize_output_safe [of "''bug#1''"] s m show ?thesis
    by (metis append_Cons append_Nil)
qed

text \<open>
  Claim C9. The sanitizer is idempotent: sanitizing a sanitized name changes nothing.
\<close>

theorem C9_sanitize_idempotent:
  "sanitizeBranchName (sanitizeBranchName b) = sanitizeBranchName b"
  by (rule sanitize_safe_id) (simp add: sanitize_all_safe)

section \<open>Properties of JavaScript values\<close>

lemma ebind_Inr_iff: "ebind r f = Inr y \<longleftrightarrow> (\<exists>x. r = Inr x \<and> f x = Inr y)"
  by (cases r) (simp_all add: ebind_def)

lemma own_property_update:
  "own_property (AList.update k x ps) k' = (if k' = k then x else own_property ps k')"
  by (simp add: own_property_def update_conv')

lemma js_get_optional_set:
  "js_set v k x = Inr v' \<Longrightarrow> js_get_optional v' k' = (if k' = k then x else js_get_optional v k')"
  by (cases v) (auto simp: own_property_update)

lemma js_get_Inr: "js_get v k = Inr x \<Longrightarrow> x = js_get_optional v k"
  by (cases v) auto

lemma js_get_optional_set_nested:
  assumes "js_set_nested v a b x = Inr v'"
  shows "js_get_optional (js_get_optional v' a) k = (if k = b then x else js_get_optional (js_get_optional v a) k)"
    and "a' \<noteq> a \<Longrightarrow> js_get_optional v' a' = js_get_optional v a'"
proof -
  from assms obtain inner inner' where i: "js_get v a = Inr inner"
    and s: "js_set inner b x = Inr inner'" and o: "js_set v a inner' = Inr v'"
    by (auto simp: js_set_nested_def ebind_Inr_iff)
  from i have inner: "inner = js_get_optional v a" by (rule js_get_Inr)
  from o have "js_get_optional v' a = inner'" by (simp add: js_get_optional_set)
  with s inner show "js_get_optional (js_get_optional v' a) k = (if k = b then x else js_get_optional (js_get_optional v a) k)"
    by (simp add: js_get_optional_set)
  from o show "a' \<noteq> a \<Longrightarrow> js_get_optional v' a' = js_get_optional v a'"
    by (simp add: js_get_optional_set)
qed

lemma apply_defaults_fields:
  assumes "apply_defaults nz v = Inr c"
  shows "js_get_optional (js_get_optional c ''codebase'') k =
           (if k = ''defaultBranch''
            then js_or nz (js_get_optional (js_get_optional v ''codebase'') ''defaultBranch'') (JStr ''main'')
            else js_get_optional (js_get_optional v ''codebase'') k)"
    and "js_get_optional (js_get_optional c ''worktrees'') k =
           (if k = ''root''
            then js_or nz (js_get_optional
                    (js_or nz (js_get_optional v ''worktrees'') (JObj [(''root'', JStr ''worktrees'')])) ''root'')
                   (JStr ''worktrees'')
            else js_get_optional
                    (js_or nz (js_get_optional v ''worktrees'') (JObj [(''root'', JStr ''worktrees'')])) k)"
    and "k \<noteq> ''codebase'' \<Longrightarrow> k \<noteq> ''worktrees'' \<Longrightarrow> js_get_optional c k = js_get_optional v k"
proof -
  from assms obtain cb d c1 w c2 w2 r where
    cb: "js_get v ''codebase'' = Inr cb" and d: "js_get cb ''defaultBranch'' = Inr d"
    and c1: "js_set_nested v ''codebase'' ''defaultBranch'' (js_or nz d (JStr ''main'')) = Inr c1"
    and w: "js_get c1 ''worktrees'' = Inr w"
    and c2: "js_set c1 ''worktrees'' (js_or nz w (JObj [(''root'', JStr ''worktrees'')])) = Inr c2"
    and w2: "js_get c2 ''worktrees'' = Inr w2" and r: "js_get w2 ''root'' = Inr r"
    and c: "js_set_nested c2 ''worktrees'' ''root'' (js_or nz r (JStr ''worktrees'')) = Inr c"
    unfolding apply_defaults_def ebind_Inr_iff by blast
  have cb': "cb = js_get_optional v ''codebase''" using cb by (rule js_get_Inr)
  have d': "d = js_get_optional cb ''defaultBranch''" using d by (rule js_get_Inr)
  have w': "w = js_get_optional c1 ''worktrees''" using w by (rule js_get_Inr)
  have w2': "w2 = js_get_optional c2 ''worktrees''" using w2 by (rule js_get_Inr)
  have r': "r = js_get_optional w2 ''root''" using r by (rule js_get_Inr)
  have wv: "w = js_get_optional v ''worktrees''"
    using js_get_optional_set_nested(2) [OF c1, of "''worktrees''"] w' by simp
  have w2v: "w2 = js_or nz (js_get_optional v ''worktrees'') (JObj [(''root'', JStr ''worktrees'')])"
    using js_get_optional_set [OF c2, of "''worktrees''"] w2' wv by simp
  have "js_get_optional c ''codebase'' = js_get_optional c2 ''codebase''"
    using js_get_optional_set_nested(2) [OF c, of "''codebase''"] by simp
  also have "\<dots> = js_get_optional c1 ''codebase''"
    using js_get_optional_set [OF c2, of "''codebase''"] by simp
  finally show "js_get_optional (js_get_optional c ''codebase'') k =
           (if k = ''defaultBranch''
            then js_or nz (js_get_optional (js_get_optional v ''codebase'') ''defaultBranch'') (JStr ''main'')
            else js_get_optional (js_get_optional v ''codebase'') k)"
    using js_get_optional_set_nested(1) [OF c1, of k] cb' d' by simp
  show "js_get_optional (js_get_optional c ''worktrees'') k =
           (if k = ''root''
            then js_or nz (js_get_optional
                    (js_or nz (js_get_optional v ''worktrees'') (JObj [(''root'', JStr ''worktrees'')])) ''root'')
                   (JStr ''worktrees'')
            else js_get_optional
                    (js_or nz (js_get_optional v ''worktrees'') (JObj [(''root'', JStr ''worktrees'')])) k)"
    using js_get_optional_set_nested(1) [OF c, of k] w2' r' w2v by simp
  show "js_get_optional c k = js_get_optional v k" if "k \<noteq> ''codebase''" "k \<noteq> ''worktrees''"
  proof -
    have "js_get_optional c k = js_get_optional c2 k"
      using js_get_optional_set_nested(2) [OF c, of k] that by simp
    also have "\<dots> = js_get_optional c1 k"
      using js_get_optional_set [OF c2, of k] that by simp
    also have "\<dots> = js_get_optional v k"
      using js_get_optional_set_nested(2) [OF c1, of k] that by simp
    finally show ?thesis .
  qed
qed

section \<open>The loaders in closed form\<close>

lemmas prog_defs = bind_def return_def throw_def process_exit_def try_catch_def block_then_def
  of_result_def console_write_def console_log_def console_warn_def console_error_def
  fs_exists_def fs_read_def run_command_def

lemma parse_failed_apply:
  "parse_failed e s = (Exit 1, s\<lparr>console := console s @
       [(Err, Text ''Error: Failed to parse project.config.json''), (Err, message_text e)]\<rparr>)"
  by (simp add: parse_failed_def prog_defs)

lemma loadConfig_bootstrap_apply:
  "loadConfig_bootstrap sys s =
     (if \<not> existsSync sys (CONFIG_PATH sys) (world s) then
        (Exit 1, s\<lparr>console := console s @
           [(Err, Text (''Error: project.config.json not found at '' @ CONFIG_PATH sys)),
            (Err, Text ''Please create project.config.json with codebase.remote and codebase.defaultBranch'')]\<rparr>)
      else case readFileSync sys (CONFIG_PATH sys) (world s) of
        Inl e \<Rightarrow> parse_failed e s
      | Inr content \<Rightarrow> (case JSON_parse sys content of
          Inl e \<Rightarrow> parse_failed e s
        | Inr config \<Rightarrow> (case js_get config ''codebase'' of
            Inl e \<Rightarrow> parse_failed e s
          | Inr codebase \<Rightarrow>
              if \<not> truthy (number_falsy sys) (js_get_optional codebase ''remote'')
                 \<or> (case js_get_optional codebase ''remote'' of JStr r \<Rightarrow> js_trim r = [] | _ \<Rightarrow> True)
              then (Exit 1, s\<lparr>console := console s @
                     [(Err, Text ''Error: project.config.json is malformed''),
                      (Err, Text ''  - codebase.remote must be a non-empty string (git remote URL)'')]\<rparr>)
              else (case apply_defaults (number_falsy sys) config of
                  Inl e \<Rightarrow> parse_failed e s
                | Inr c \<Rightarrow> (Ret c, s)))))"
  unfolding loadConfig_bootstrap_def prog_defs parse_failed_def Let_def block.simps
  by (simp split: sum.splits)

lemma loadConfig_wt_apply:
  "loadConfig_wt sys s =
     (if \<not> existsSync sys (CONFIG_PATH sys) (world s) then
        (Exit 1, s\<lparr>console := console s @
           [(Err, Text (''Error: project.config.json not found at '' @ CONFIG_PATH sys))]\<rparr>)
      else case readFileSync sys (CONFIG_PATH sys) (world s) of
        Inl e \<Rightarrow> parse_failed e s
      | Inr content \<Rightarrow> (case JSON_parse sys content of
          Inl e \<Rightarrow> parse_failed e s
        | Inr config \<Rightarrow> (case js_get config ''codebase'' of
            Inl e \<Rightarrow> parse_failed e s
          | Inr codebase \<Rightarrow>
              if \<not> truthy (number_falsy sys) (js_get_optional codebase ''remote'')
              then (Exit 1, s\<lparr>console := console s @
                     [(Err, Text ''Error: project.config.json is malformed - missing codebase.remote'')]\<rparr>)
              else (case apply_defaults (number_falsy sys) config of
                  Inl e \<Rightarrow> parse_failed e s
                | Inr c \<Rightarrow> (Ret c, s)))))"
  unfolding loadConfig_wt_def prog_defs parse_failed_def Let_def block.simps
  by (simp split: sum.splits)

lemma loadConfig_bootstrap_frame:
  "loadConfig_bootstrap sys s = (r, s') \<Longrightarrow>
     world s' = world s \<and> cmds s' = cmds s \<and> (r = Exit 1 \<or> (\<exists>c. r = Ret c \<and> s' = s))"
  by (auto simp: loadConfig_bootstrap_apply parse_failed_apply split: if_splits sum.splits)

lemma loadConfig_wt_frame:
  "loadConfig_wt sys s = (r, s') \<Longrightarrow>
     world s' = world s \<and> cmds s' = cmds s \<and> (r = Exit 1 \<or> (\<exists>c. r = Ret c \<and> s' = s))"
  by (auto simp: loadConfig_wt_apply parse_failed_apply split: if_splits sum.splits)

section \<open>The steps of the worktree-creation script in closed form\<close>

lemma fetchLatest_apply:
  "fetchLatest sys s =
     (case execSync sys (command_wt (git_fetch (BARE_PATH sys)) None False) (world s) of (r, w') \<Rightarrow>
     (Ret (), s\<lparr>world := w', cmds := cmds s @ [command_wt (git_fetch (BARE_PATH sys)) None False],
        console := console s @ (Log, Text ''Fetching latest from remote...'') #
          (case r of
             Inl e \<Rightarrow> [(Warn, Text ''Warning: Failed to fetch from remote. Continuing with local state.''),
                        (Warn, Text (failure_text e))]
           | Inr out \<Rightarrow> [(Log, Text ''Fetch complete.'')])\<rparr>))"
  by (simp add: fetchLatest_def run_wt_def prog_defs split: prod.splits sum.splits)

lemma branchExists_apply:
  "branchExists sys branch t s =
     (case execSync sys (command_wt (git_show_ref (BARE_PATH sys) (branch_ref branch t)) None True) (world s) of (r, w') \<Rightarrow>
     (Ret (\<not> isl r), s\<lparr>world := w',
        cmds := cmds s @ [command_wt (git_show_ref (BARE_PATH sys) (branch_ref branch t)) None True]\<rparr>))"
  by (simp add: branchExists_def run_wt_def prog_defs split: prod.splits sum.splits)

lemma createWorktree_wt_apply:
  "createWorktree_wt sys branch path new s =
     (case execSync sys (command_wt
      (if new then git_worktree_add_new (BARE_PATH sys) branch path
       else git_worktree_add (BARE_PATH sys) path branch) None False) (world s) of (r, w') \<Rightarrow>
     ((case r of Inl e \<Rightarrow> Throw (Error (failure_text e)) | Inr out \<Rightarrow> Ret ()),
      s\<lparr>world := w',
        cmds := cmds s @ [command_wt
          (if new then git_worktree_add_new (BARE_PATH sys) branch path
           else git_worktree_add (BARE_PATH sys) path branch) None False],
        console := console s @
          [(Log, Text (if new
             then ''Creating new branch '' @ [CHR 0x27] @ branch @ [CHR 0x27] @ '' and worktree...''
             else ''Creating worktree for existing branch '' @ [CHR 0x27] @ branch @ [CHR 0x27] @ ''...''))]\<rparr>))"
  by (simp add: createWorktree_wt_def run_wt_def prog_defs split: prod.splits sum.splits)

lemma createTrackingBranch_apply:
  "createTrackingBranch sys branch s =
     (case execSync sys (command_wt (git_branch_track (BARE_PATH sys) branch) None False) (world s) of (r, w') \<Rightarrow>
     ((case r of Inl e \<Rightarrow> Throw (Error (failure_text e)) | Inr out \<Rightarrow> Ret ()),
      s\<lparr>world := w',
        cmds := cmds s @ [command_wt (git_branch_track (BARE_PATH sys) branch) None False],
        console := console s @
          [(Log, Text (''Creating local branch '' @ [CHR 0x27] @ branch @ [CHR 0x27] @ '' tracking ''
          @ [CHR 0x27] @ ''origin/'' @ branch @ [CHR 0x27] @ ''...''))]\<rparr>))"
  by (simp add: createTrackingBranch_def run_wt_def prog_defs split: prod.splits sum.splits)

lemma installDependencies_wt_apply:
  "installDependencies_wt sys path s =
     (case execSync sys (command_wt ''pnpm install'' (Some path) False) (world s) of (r, w') \<Rightarrow>
     ((case r of Inl e \<Rightarrow> Exit 1 | Inr out \<Rightarrow> Ret ()),
      s\<lparr>world := w',
        cmds := cmds s @ [command_wt ''pnpm install'' (Some path) False],
        console := console s @ (Log, Text ''Installing dependencies...'') #
          (case r of
             Inl e \<Rightarrow> [(Err, Text ''Error: Failed to install dependencies.''),
                        (Err, Text (failure_text e))]
           | Inr out \<Rightarrow> [(Log, Text ''Dependencies installed successfully.'')])\<rparr>))"
  by (simp add: installDependencies_wt_def run_wt_def prog_defs split: prod.splits sum.splits)

section \<open>Paths taken from the configuration\<close>

lemma js_get_defined:
  "js_get_optional v k \<noteq> JUndefined \<Longrightarrow> js_get v k' = Inr (js_get_optional v k')"
  by (cases v) auto

lemma string_args_single: "string_args [JStr a, v] = Inr ss \<longleftrightarrow> (\<exists>r. v = JStr r \<and> ss = [a, r])"
  by (cases v) (auto simp: ebind_def)

lemma worktrees_root_Inr:
  assumes "ebind (ebind (js_get config ''worktrees'') (\<lambda>w. js_get w ''root''))
     (\<lambda>root. join_values [JStr R, root]) = Inr p"
  shows "\<exists>r. js_get_optional (js_get_optional config ''worktrees'') ''root'' = JStr r \<and> p = join [R, r]"
proof -
  from assms obtain w root ss where w: "js_get config ''worktrees'' = Inr w"
    and root: "js_get w ''root'' = Inr root"
    and ss: "string_args [JStr R, root] = Inr ss" and p: "p = join ss"
    by (auto simp: ebind_Inr_iff join_values_def)
  from ss [unfolded string_args_single] obtain r where r: "root = JStr r" "ss = [R, r]"
    by blast
  have "js_get_optional (js_get_optional config ''worktrees'') ''root'' = root"
    using js_get_Inr [OF w] js_get_Inr [OF root] by auto
  with r p show ?thesis by auto
qed

lemma codebase_field:
  assumes "js_get_optional (js_get_optional config ''codebase'') k' \<noteq> JUndefined"
  shows "ebind (js_get config ''codebase'') (\<lambda>c. js_get c k)
    = Inr (js_get_optional (js_get_optional config ''codebase'') k)"
proof -
  from assms have "js_get_optional config ''codebase'' \<noteq> JUndefined"
    by auto
  then have "js_get config ''codebase'' = Inr (js_get_optional config ''codebase'')"
    by (rule js_get_defined)
  moreover from assms have "js_get (js_get_optional config ''codebase'') k
      = Inr (js_get_optional (js_get_optional config ''codebase'') k)"
    by (rule js_get_defined)
  ultimately show ?thesis by (simp add: ebind_def)
qed

lemma worktrees_root_string:
  assumes "js_get_optional (js_get_optional config ''worktrees'') ''root'' = JStr r"
  shows "ebind (ebind (js_get config ''worktrees'') (\<lambda>w. js_get w ''root''))
     (\<lambda>root. join_values [JStr R, root]) = Inr (join [R, r])"
proof -
  from assms have "js_get_optional (js_get_optional config ''worktrees'') ''root'' \<noteq> JUndefined"
    by simp
  then have 1: "js_get (js_get_optional config ''worktrees'') ''root'' = Inr (JStr r)"
    using assms js_get_defined [of "js_get_optional config ''worktrees''" "''root''" "''root''"] by simp
  have "js_get_optional config ''worktrees'' \<noteq> JUndefined"
    using assms by auto
  then have 2: "js_get config ''worktrees'' = Inr (js_get_optional config ''worktrees'')"
    by (rule js_get_defined)
  from 1 2 show ?thesis
    by (simp add: ebind_def join_values_def)
qed

lemma main_wt_no_bare:
  assumes "\<not> existsSync sys (BARE_PATH sys) w"
  shows "exit_code (fst (main_wt sys args (initial w))) = 1
         \<and> cmds (snd (main_wt sys args (initial w))) = []
         \<and> world (snd (main_wt sys args (initial w))) = w"
proof (cases args)
  case Nil
  then show ?thesis
    by (simp add: main_wt_def prog_defs exit_code_def initial_def)
next
  case (Cons branch rest)
  obtain r s1 where l: "loadConfig_wt sys (initial w) = (r, s1)" by force
  from loadConfig_wt_frame [OF l] consider
    "r = Exit 1" "world s1 = w" "cmds s1 = []" | c where "r = Ret c" "s1 = initial w"
    by (auto simp: initial_def)
  then show ?thesis
  proof cases
    case 1
    with l Cons show ?thesis
      by (simp add: main_wt_def bind_def exit_code_def)
  next
    case 2
    show ?thesis
    proof (cases "ebind (ebind (js_get c ''worktrees'') (\<lambda>w. js_get w ''root''))
                  (\<lambda>root. join_values [JStr (META_REPO_ROOT sys), root])")
      case (Inl e)
      with l 2 Cons show ?thesis
        by (simp add: main_wt_def prog_defs exit_code_def initial_def)
    next
      case (Inr p)
      with l 2 Cons assms show ?thesis
        by (simp add: main_wt_def prog_defs exit_code_def initial_def Let_def)
    qed
  qed
qed

lemmas wt_apply = fetchLatest_apply branchExists_apply createWorktree_wt_apply
  createTrackingBranch_apply installDependencies_wt_apply

section \<open>The steps of the bootstrap script in closed form\<close>

lemma cloneBareRepo_apply:
  "cloneBareRepo sys remote s =
     (case execSync sys (command_bootstrap
        (''git clone --bare '' @ quoted remote @ '' '' @ quoted (BARE_PATH sys)) None) (world s) of (r, w') \<Rightarrow>
     ((case r of Inl e \<Rightarrow> Throw (Error (failure_text e)) | Inr out \<Rightarrow> Ret ()),
      s\<lparr>world := w',
        cmds := cmds s @ [command_bootstrap
          (''git clone --bare '' @ quoted remote @ '' '' @ quoted (BARE_PATH sys)) None],
        console := console s @ (Log, Text (''Cloning bare repository from '' @ remote @ ''...'')) #
          (case r of Inl e \<Rightarrow> [] | Inr out \<Rightarrow> [(Log, Text ''Bare repository cloned successfully.'')])\<rparr>))"
  by (simp add: cloneBareRepo_def run_bootstrap_def prog_defs split: prod.splits sum.splits)

lemma verifyWorktreePointsToOurBare_apply:
  "verifyWorktreePointsToOurBare sys path s =
     (Ret (existsSync sys (join [path, ''.git'']) (world s) \<and>
           (case readFileSync sys (join [path, ''.git'']) (world s) of
              Inl e \<Rightarrow> False
            | Inr raw \<Rightarrow> startsWith (js_trim raw) ''gitdir:''
                \<and> includes_str (js_trim (drop (length ''gitdir:'') (js_trim raw))) ''.bare'')), s)"
  by (simp add: verifyWorktreePointsToOurBare_def prog_defs Let_def split: sum.splits)

lemma enableCorepack_apply:
  "enableCorepack sys s =
     (case execSync sys (command_bootstrap ''corepack enable'' None) (world s) of (r, w') \<Rightarrow>
     (Ret (), s\<lparr>world := w', cmds := cmds s @ [command_bootstrap ''corepack enable'' None],
        console := console s @ (Log, Text ''Enabling corepack...'') #
          (case r of
             Inl e \<Rightarrow> [(Warn, Text (''Warning: Failed to enable corepack. You may need to run ''
                   @ [CHR 0x27] @ ''corepack enable'' @ [CHR 0x27] @ '' manually.'')),
                        (Warn, Text (failure_text e))]
           | Inr out \<Rightarrow> [(Log, Text ''Corepack enabled.'')])\<rparr>))"
  by (simp add: enableCorepack_def run_bootstrap_def prog_defs split: prod.splits sum.splits)

lemma installDependencies_bootstrap_apply:
  assumes "js_get_optional (js_get_optional config ''worktrees'') ''root'' = JStr root"
  shows "installDependencies_bootstrap sys config s =
     (case execSync sys (command_bootstrap ''pnpm install''
        (Some (join [join [META_REPO_ROOT sys, root], ''main''])) ) (world s) of (r, w') \<Rightarrow>
     ((case r of Inl e \<Rightarrow> Exit 1 | Inr out \<Rightarrow> Ret ()),
      s\<lparr>world := w',
        cmds := cmds s @ [command_bootstrap ''pnpm install''
           (Some (join [join [META_REPO_ROOT sys, root], ''main'']))],
        console := console s @ (Log, Text ''Installing dependencies in main worktree...'') #
          (case r of
             Inl e \<Rightarrow> [(Err, Text ''Error: Failed to install dependencies.''),
                        (Err, Text (failure_text e))]
           | Inr out \<Rightarrow> [(Log, Text ''Dependencies installed successfully.'')])\<rparr>))"
  by (simp add: installDependencies_bootstrap_def worktrees_root_string [OF assms]
      run_bootstrap_def prog_defs Let_def split: prod.splits sum.splits)

lemma createWorktree_bootstrap_existing:
  assumes root: "js_get_optional (js_get_optional config ''worktrees'') ''root'' = JStr root"
    and remote: "js_get_optional (js_get_optional config ''codebase'') ''remote'' = JStr remote"
    and found: "existsSync sys (join [join [META_REPO_ROOT sys, root], ''main'']) (world s)"
  shows "createWorktree_bootstrap sys config s =
     (case execSync sys (command_bootstrap
         (git_rev_parse (join [join [META_REPO_ROOT sys, root], ''main''])) None) (world s) of (r, w') \<Rightarrow>
      (case r of
         Inl e \<Rightarrow> (Exit 1, s\<lparr>world := w',
             cmds := cmds s @ [command_bootstrap
               (git_rev_parse (join [join [META_REPO_ROOT sys, root], ''main''])) None],
             console := console s @
               [(Err, Text (''Error: '' @ join [join [META_REPO_ROOT sys, root], ''main'']
                   @ '' exists but is not a valid git worktree.'')),
                (Err, Text ''Please remove or rename this directory and run bootstrap again.'')]\<rparr>)
       | Inr out \<Rightarrow>
           if fst (verifyWorktreePointsToOurBare sys (join [join [META_REPO_ROOT sys, root], ''main''])
                    (s\<lparr>world := w'\<rparr>)) = Ret True
           then (Ret (), s\<lparr>world := w',
             cmds := cmds s @ [command_bootstrap
               (git_rev_parse (join [join [META_REPO_ROOT sys, root], ''main''])) None],
             console := console s @ [(Log, Text ''Main worktree already exists and is valid.'')]\<rparr>)
           else (Exit 1, s\<lparr>world := w',
             cmds := cmds s @ [command_bootstrap
               (git_rev_parse (join [join [META_REPO_ROOT sys, root], ''main''])) None],
             console := console s @
               [(Err, Text (''Error: '' @ join [join [META_REPO_ROOT sys, root], ''main'']
                   @ '' exists but is not a worktree for our .bare repository.'')),
                (Err, Text ''Please remove or rename this directory and run bootstrap again.'')]\<rparr>)))"
proof -
  from remote have "js_get_optional (js_get_optional config ''codebase'') ''remote'' \<noteq> JUndefined"
    by simp
  note d = codebase_field [OF this, of "''defaultBranch''"]
  obtain r w' where e: "execSync sys (command_bootstrap
         (git_rev_parse (join [join [META_REPO_ROOT sys, root], ''main''])) None) (world s) = (r, w')"
    by force
  show ?thesis
    using found e
    by (cases r)
       (simp_all add: createWorktree_bootstrap_def worktrees_root_string [OF root] d
        verifyWorktreePointsToOurBare_apply run_bootstrap_def prog_defs Let_def)
qed

section \<open>Defaults of the configuration\<close>

lemma join_demo:
  "join [''/repo'', ''project.config.json''] = ''/repo/project.config.json''"
  "join [''/repo'', ''.bare''] = ''/repo/.bare''"
  "join [''/repo'', ''worktrees''] = ''/repo/worktrees''"
  "join [''/repo/worktrees'', ''main''] = ''/repo/worktrees/main''"
  "join [''/repo/worktrees/main'', ''.git''] = ''/repo/worktrees/main/.git''"
  "join [''/repo/worktrees'', ''feature__x''] = ''/repo/worktrees/feature__x''"
  "join [''/repo'', ''worktrees'', ''main''] = ''/repo/worktrees/main''"
  by (simp_all add: join_def normalize_def normalizeString_def normalize_step_def)

lemma elements_set: "js_set v k x = Inr v' \<Longrightarrow> elements v' = elements v"
  by (cases v) auto

lemma elements_set_nested:
  assumes "js_set_nested v a b x = Inr v'"
  shows "elements v' = elements v"
    and "elements (js_get_optional v' a) = elements (js_get_optional v a)"
proof -
  from assms obtain inner inner' where i: "js_get v a = Inr inner"
    and s: "js_set inner b x = Inr inner'" and o: "js_set v a inner' = Inr v'"
    by (auto simp: js_set_nested_def ebind_Inr_iff)
  from o show "elements v' = elements v" by (rule elements_set)
  from o have "js_get_optional v' a = inner'" by (simp add: js_get_optional_set)
  with elements_set [OF s] js_get_Inr [OF i]
  show "elements (js_get_optional v' a) = elements (js_get_optional v a)" by simp
qed

lemma loadConfig_Ret:
  assumes "loadConfig_bootstrap sys s = (Ret c, s') \<or> loadConfig_wt sys s = (Ret c, s')"
  shows "\<exists>content v. readFileSync sys (CONFIG_PATH sys) (world s) = Inr content
           \<and> JSON_parse sys content = Inr v
           \<and> truthy (number_falsy sys) (js_get_optional (js_get_optional v ''codebase'') ''remote'')
           \<and> apply_defaults (number_falsy sys) v = Inr c \<and> s' = s"
  using assms
  by (auto simp: loadConfig_bootstrap_apply loadConfig_wt_apply parse_failed_apply
      split: if_splits sum.splits dest!: js_get_Inr)

lemma apply_defaults_elements:
  assumes "apply_defaults nz v = Inr c"
  shows "elements c = elements v"
    and "elements (js_get_optional c ''codebase'') = elements (js_get_optional v ''codebase'')"
    and "truthy nz (js_get_optional v ''worktrees'') \<Longrightarrow>
         elements (js_get_optional c ''worktrees'') = elements (js_get_optional v ''worktrees'')"
proof -
  from assms obtain cb d c1 w c2 w2 r where
    cb: "js_get v ''codebase'' = Inr cb" and d: "js_get cb ''defaultBranch'' = Inr d"
    and c1: "js_set_nested v ''codebase'' ''defaultBranch'' (js_or nz d (JStr ''main'')) = Inr c1"
    and w: "js_get c1 ''worktrees'' = Inr w"
    and c2: "js_set c1 ''worktrees'' (js_or nz w (JObj [(''root'', JStr ''worktrees'')])) = Inr c2"
    and w2: "js_get c2 ''worktrees'' = Inr w2" and r: "js_get w2 ''root'' = Inr r"
    and c: "js_set_nested c2 ''worktrees'' ''root'' (js_or nz r (JStr ''worktrees'')) = Inr c"
    unfolding apply_defaults_def ebind_Inr_iff by blast
  show "elements c = elements v"
    using elements_set_nested(1) [OF c] elements_set [OF c2] elements_set_nested(1) [OF c1] by simp
  have "js_get_optional c ''codebase'' = js_get_optional c2 ''codebase''"
    using js_get_optional_set_nested(2) [OF c, of "''codebase''"] by simp
  also have "\<dots> = js_get_optional c1 ''codebase''"
    using js_get_optional_set [OF c2, of "''codebase''"] by simp
  finally show "elements (js_get_optional c ''codebase'') = elements (js_get_optional v ''codebase'')"
    using elements_set_nested(2) [OF c1] by simp
  have wv: "w = js_get_optional v ''worktrees''"
    using js_get_optional_set_nested(2) [OF c1, of "''worktrees''"] js_get_Inr [OF w] by simp
  have "js_get_optional c2 ''worktrees'' = js_or nz w (JObj [(''root'', JStr ''worktrees'')])"
    using js_get_optional_set [OF c2, of "''worktrees''"] by simp
  then show "elements (js_get_optional c ''worktrees'') = elements (js_get_optional v ''worktrees'')"
    if "truthy nz (js_get_optional v ''worktrees'')"
    using elements_set_nested(2) [OF c] wv that by (simp add: js_or_def)
qed

lemma loadConfig_Ret_defaults:
  assumes "loadConfig_bootstrap sys s = (Ret c, s') \<or> loadConfig_wt sys s = (Ret c, s')"
  shows "\<exists>content v.
      readFileSync sys (CONFIG_PATH sys) (world s) = Inr content \<and> JSON_parse sys content = Inr v
      \<and> s' = s
      \<and> (js_get_optional (js_get_optional v ''codebase'') ''defaultBranch'' \<in> {JUndefined, JStr []}
           \<longrightarrow> js_get_optional (js_get_optional c ''codebase'') ''defaultBranch'' = JStr ''main'')
      \<and> (truthy (number_falsy sys) (js_get_optional (js_get_optional v ''codebase'') ''defaultBranch'')
           \<longrightarrow> js_get_optional (js_get_optional c ''codebase'') ''defaultBranch''
               = js_get_optional (js_get_optional v ''codebase'') ''defaultBranch'')
      \<and> (js_get_optional v ''worktrees'' \<in> {JUndefined, JStr []}
           \<or> js_get_optional (js_get_optional v ''worktrees'') ''root'' \<in> {JUndefined, JStr []}
           \<longrightarrow> js_get_optional (js_get_optional c ''worktrees'') ''root'' = JStr ''worktrees'')
      \<and> (truthy (number_falsy sys) (js_get_optional v ''worktrees'')
           \<and> truthy (number_falsy sys) (js_get_optional (js_get_optional v ''worktrees'') ''root'')
           \<longrightarrow> js_get_optional (js_get_optional c ''worktrees'') ''root''
               = js_get_optional (js_get_optional v ''worktrees'') ''root'')
      \<and> (\<forall>k. k \<noteq> ''codebase'' \<and> k \<noteq> ''worktrees'' \<longrightarrow> js_get_optional c k = js_get_optional v k)
      \<and> (\<forall>k. k \<noteq> ''defaultBranch'' \<longrightarrow>
            js_get_optional (js_get_optional c ''codebase'') k
              = js_get_optional (js_get_optional v ''codebase'') k)
      \<and> (truthy (number_falsy sys) (js_get_optional v ''worktrees'') \<longrightarrow>
           (\<forall>k. k \<noteq> ''root'' \<longrightarrow>
              js_get_optional (js_get_optional c ''worktrees'') k
                = js_get_optional (js_get_optional v ''worktrees'') k)
           \<and> elements (js_get_optional c ''worktrees'') = elements (js_get_optional v ''worktrees''))
      \<and> elements c = elements v
      \<and> elements (js_get_optional c ''codebase'') = elements (js_get_optional v ''codebase'')"
proof -
  from loadConfig_Ret [OF assms] obtain content v where
    rd: "readFileSync sys (CONFIG_PATH sys) (world s) = Inr content"
    and ps: "JSON_parse sys content = Inr v"
    and ad: "apply_defaults (number_falsy sys) v = Inr c" and s: "s' = s"
    by blast
  note f = apply_defaults_fields [OF ad] and e = apply_defaults_elements [OF ad]
  have 1: "js_get_optional (js_get_optional v ''codebase'') ''defaultBranch'' \<in> {JUndefined, JStr []}
           \<longrightarrow> js_get_optional (js_get_optional c ''codebase'') ''defaultBranch'' = JStr ''main''"
    by (auto simp: f(1) js_or_def)
  have 2: "truthy (number_falsy sys) (js_get_optional (js_get_optional v ''codebase'') ''defaultBranch'')
           \<longrightarrow> js_get_optional (js_get_optional c ''codebase'') ''defaultBranch''
               = js_get_optional (js_get_optional v ''codebase'') ''defaultBranch''"
    by (simp add: f(1) js_or_def)
  have 3: "js_get_optional v ''worktrees'' \<in> {JUndefined, JStr []}
           \<or> js_get_optional (js_get_optional v ''worktrees'') ''root'' \<in> {JUndefined, JStr []}
           \<longrightarrow> js_get_optional (js_get_optional c ''worktrees'') ''root'' = JStr ''worktrees''"
    by (auto simp: f(2) js_or_def own_property_def)
  have 4: "truthy (number_falsy sys) (js_get_optional v ''worktrees'')
           \<and> truthy (number_falsy sys) (js_get_optional (js_get_optional v ''worktrees'') ''root'')
           \<longrightarrow> js_get_optional (js_get_optional c ''worktrees'') ''root''
               = js_get_optional (js_get_optional v ''worktrees'') ''root''"
    by (simp add: f(2) js_or_def)
  have 5: "\<forall>k. k \<noteq> ''codebase'' \<and> k \<noteq> ''worktrees'' \<longrightarrow> js_get_optional c k = js_get_optional v k"
    by (simp add: f(3))
  have 6: "\<forall>k. k \<noteq> ''defaultBranch'' \<longrightarrow>
            js_get_optional (js_get_optional c ''codebase'') k
              = js_get_optional (js_get_optional v ''codebase'') k"
    by (simp add: f(1))
  have 7: "truthy (number_falsy sys) (js_get_optional v ''worktrees'') \<longrightarrow>
           (\<forall>k. k \<noteq> ''root'' \<longrightarrow>
              js_get_optional (js_get_optional c ''worktrees'') k
                = js_get_optional (js_get_optional v ''worktrees'') k)
           \<and> elements (js_get_optional c ''worktrees'') = elements (js_get_optional v ''worktrees'')"
    by (simp add: f(2) e(3) js_or_def)
  from rd ps s 1 2 3 4 5 6 7 e(1) e(2) show ?thesis by blast
qed

lemma js_get_optional_object: "js_get_optional v k \<noteq> JUndefined \<Longrightarrow> is_object v"
  by (cases v) auto

lemma js_get_object: "is_object v \<Longrightarrow> js_get v k = Inr (js_get_optional v k)"
  by (cases v) auto

lemma js_set_object: "is_object v \<Longrightarrow> \<exists>v'. js_set v k x = Inr v' \<and> is_object v'"
  by (cases v) auto

lemma js_set_nested_object:
  assumes "is_object v" and "is_object (js_get_optional v a)"
  shows "\<exists>v'. js_set_nested v a b x = Inr v' \<and> is_object v'"
proof -
  from js_set_object [OF assms(2), of b x] obtain inner' where
    i: "js_set (js_get_optional v a) b x = Inr inner'" by blast
  from js_set_object [OF assms(1), of a inner'] obtain v' where
    "js_set v a inner' = Inr v'" "is_object v'" by blast
  with i js_get_object [OF assms(1), of a] show ?thesis
    by (simp add: js_set_nested_def ebind_def)
qed

lemma apply_defaults_succeeds:
  assumes remote: "truthy nz (js_get_optional (js_get_optional v ''codebase'') ''remote'')"
    and worktrees: "is_object (js_get_optional v ''worktrees'')
                    \<or> \<not> truthy nz (js_get_optional v ''worktrees'')"
  shows "\<exists>c. apply_defaults nz v = Inr c"
proof -
  from remote have r: "js_get_optional (js_get_optional v ''codebase'') ''remote'' \<noteq> JUndefined"
    by auto
  then have cbo: "is_object (js_get_optional v ''codebase'')"
    by (rule js_get_optional_object)
  then have "js_get_optional v ''codebase'' \<noteq> JUndefined" by auto
  then have vo: "is_object v" by (rule js_get_optional_object)
  let ?d = "js_get_optional (js_get_optional v ''codebase'') ''defaultBranch''"
  have d: "ebind (js_get v ''codebase'') (\<lambda>c. js_get c ''defaultBranch'') = Inr ?d"
    using r by (rule codebase_field)
  from js_set_nested_object [OF vo cbo] obtain c1 where
    c1: "js_set_nested v ''codebase'' ''defaultBranch'' (js_or nz ?d (JStr ''main'')) = Inr c1"
    and c1o: "is_object c1" by blast
  have w: "js_get c1 ''worktrees'' = Inr (js_get_optional v ''worktrees'')"
    using js_get_object [OF c1o, of "''worktrees''"]
      js_get_optional_set_nested(2) [OF c1, of "''worktrees''"] by simp
  let ?w = "js_or nz (js_get_optional v ''worktrees'') (JObj [(''root'', JStr ''worktrees'')])"
  have wo: "is_object ?w"
    using worktrees by (auto simp: js_or_def)
  from js_set_object [OF c1o] obtain c2 where
    c2: "js_set c1 ''worktrees'' ?w = Inr c2" and c2o: "is_object c2" by blast
  have w2: "js_get_optional c2 ''worktrees'' = ?w"
    using js_get_optional_set [OF c2, of "''worktrees''"] by simp
  have g2: "ebind (js_get c2 ''worktrees'') (\<lambda>w. js_get w ''root'') = Inr (js_get_optional ?w ''root'')"
    using js_get_object [OF c2o, of "''worktrees''"] js_get_object [OF wo, of "''root''"] w2
    by (simp add: ebind_def)
  from wo w2 have "is_object (js_get_optional c2 ''worktrees'')" by simp
  from js_set_nested_object [OF c2o this] obtain c where
    "js_set_nested c2 ''worktrees'' ''root''
       (js_or nz (js_get_optional ?w ''root'') (JStr ''worktrees'')) = Inr c" by blast
  with d c1 w c2 g2 show ?thesis
    unfolding apply_defaults_def by (simp add: ebind_def)
qed

lemma loadConfig_returns:
  assumes "existsSync sys (CONFIG_PATH sys) (world s)"
    and "readFileSync sys (CONFIG_PATH sys) (world s) = Inr content"
    and "JSON_parse sys content = Inr v"
    and remote: "js_get_optional (js_get_optional v ''codebase'') ''remote'' = JStr r" "js_trim r \<noteq> []"
    and worktrees: "is_object (js_get_optional v ''worktrees'')
                    \<or> \<not> truthy (number_falsy sys) (js_get_optional v ''worktrees'')"
  shows "\<exists>c. loadConfig_bootstrap sys s = (Ret c, s) \<and> loadConfig_wt sys s = (Ret c, s)"
proof -
  from remote have ne: "r \<noteq> []" by (auto simp: js_trim_def)
  with remote have t: "truthy (number_falsy sys) (js_get_optional (js_get_optional v ''codebase'') ''remote'')"
    by simp
  from apply_defaults_succeeds [OF t worktrees] obtain c where
    c: "apply_defaults (number_falsy sys) v = Inr c" ..
  from remote have "js_get_optional v ''codebase'' \<noteq> JUndefined" by auto
  then have cb: "js_get v ''codebase'' = Inr (js_get_optional v ''codebase'')"
    by (rule js_get_defined)
  from assms(1-3) cb remote ne c
  have "loadConfig_bootstrap sys s = (Ret c, s)" and "loadConfig_wt sys s = (Ret c, s)"
    by (simp_all add: loadConfig_bootstrap_apply loadConfig_wt_apply)
  then show ?thesis by blast
qed

text \<open>
  Claim C7. Whenever a loader (of either script) returns a configuration \<open>c\<close>, the file was
  read and parsed to a value \<open>v\<close>, and \<open>c\<close> is \<open>v\<close> with the defaults applied:
  \<^verbatim>\<open>codebase.defaultBranch\<close> is \<^verbatim>\<open>"main"\<close> when it was absent or empty and is kept when
  it was truthy; \<^verbatim>\<open>worktrees.root\<close> is \<^verbatim>\<open>"worktrees"\<close> when \<^verbatim>\<open>worktrees\<close> or
  \<^verbatim>\<open>worktrees.root\<close> was absent or empty and is kept when both were truthy; every other
  field (of the top level, of \<^verbatim>\<open>codebase\<close> and of a given \<^verbatim>\<open>worktrees\<close>) and every array
  element is as parsed. The state after loading is the state before: nothing is written
  to the world, no command runs, nothing is printed. And both loaders do return a
  configuration, the same one, when the file is there, reads and parses, its
  \<^verbatim>\<open>codebase.remote\<close> is a string that is not blank, and \<^verbatim>\<open>worktrees\<close> is an object
  or falsy (a truthy primitive there makes the assignment of its \<^verbatim>\<open>root\<close> throw).
\<close>

theorem C7_defaults_applied:
  "(loadConfig_bootstrap sys s = (Ret c, s') \<or> loadConfig_wt sys s = (Ret c, s') \<longrightarrow>
    (\<exists>content v.
      readFileSync sys (CONFIG_PATH sys) (world s) = Inr content \<and> JSON_parse sys content = Inr v
      \<and> s' = s
      \<and> (js_get_optional (js_get_optional v ''codebase'') ''defaultBranch'' \<in> {JUndefined, JStr []}
           \<longrightarrow> js_get_optional (js_get_optional c ''codebase'') ''defaultBranch'' = JStr ''main'')
      \<and> (truthy (number_falsy sys) (js_get_optional (js_get_optional v ''codebase'') ''defaultBranch'')
           \<longrightarrow> js_get_optional (js_get_optional c ''codebase'') ''defaultBranch''
               = js_get_optional (js_get_optional v ''codebase'') ''defaultBranch'')
      \<and> (js_get_optional v ''worktrees'' \<in> {JUndefined, JStr []}
           \<or> js_get_optional (js_get_optional v ''worktrees'') ''root'' \<in> {JUndefined, JStr []}
           \<longrightarrow> js_get_optional (js_get_optional c ''worktrees'') ''root'' = JStr ''worktrees'')
      \<and> (truthy (number_falsy sys) (js_get_optional v ''worktrees'')
           \<and> truthy (number_falsy sys) (js_get_optional (js_get_optional v ''worktrees'') ''root'')
           \<longrightarrow> js_get_optional (js_get_optional c ''worktrees'') ''root''
               = js_get_optional (js_get_optional v ''worktrees'') ''root'')
      \<and> (\<forall>k. k \<noteq> ''codebase'' \<and> k \<noteq> ''worktrees'' \<longrightarrow> js_get_optional c k = js_get_optional v k)
      \<and> (\<forall>k. k \<noteq> ''defaultBranch'' \<longrightarrow>
            js_get_optional (js_get_optional c ''codebase'') k
              = js_get_optional (js_get_optional v ''codebase'') k)
      \<and> (truthy (number_falsy sys) (js_get_optional v ''worktrees'') \<longrightarrow>
           (\<forall>k. k \<noteq> ''root'' \<longrightarrow>
              js_get_optional (js_get_optional c ''worktrees'') k
                = js_get_optional (js_get_optional v ''worktrees'') k)
           \<and> elements (js_get_optional c ''worktrees'') = elements (js_get_optional v ''worktrees''))
      \<and> elements c = elements v
      \<and> elements (js_get_optional c ''codebase'') = elements (js_get_optional v ''codebase'')))
   \<and> (existsSync sys (CONFIG_PATH sys) (world s)
       \<and> readFileSync sys (CONFIG_PATH sys) (world s) = Inr source
       \<and> JSON_parse sys source = Inr parsed
       \<and> js_get_optional (js_get_optional parsed ''codebase'') ''remote'' = JStr r
       \<and> js_trim r \<noteq> []
       \<and> (is_object (js_get_optional parsed ''worktrees'')
            \<or> \<not> truthy (number_falsy sys) (js_get_optional parsed ''worktrees'')) \<longrightarrow>
       (\<exists>c0. loadConfig_bootstrap sys s = (Ret c0, s) \<and> loadConfig_wt sys s = (Ret c0, s)))"
  using loadConfig_Ret_defaults [of sys s c s'] loadConfig_returns [of sys s source parsed r]
  by blast

section \<open>Branch resolution\<close>

lemma loadConfig_wt_initial:
  "loadConfig_wt sys (initial w) = (Ret config, s1) \<Longrightarrow> s1 = initial w"
  using loadConfig_wt_frame by blast

lemma main_wt_commands:
  assumes args: "args = branch # rest"
    and load: "loadConfig_wt sys (initial w) = (Ret config, s1)"
    and root: "js_get_optional (js_get_optional config ''worktrees'') ''root'' = JStr root"
    and path: "path = join [join [META_REPO_ROOT sys, root], sanitizeBranchName branch]"
    and bare: "existsSync sys (BARE_PATH sys) w"
    and free: "\<not> existsSync sys path w"
    and fetch: "execSync sys (command_wt (git_fetch (BARE_PATH sys)) None False) w = (rf, w1)"
    and loc: "execSync sys (command_wt
        (git_show_ref (BARE_PATH sys) (''refs/heads/'' @ branch)) None True) w1 = (rl, w2)"
    and rem: "execSync sys (command_wt
        (git_show_ref (BARE_PATH sys) (''refs/remotes/origin/'' @ branch)) None True) w2 = (rr, w3)"
  shows "\<exists>tail. cmds (snd (main_wt sys args (initial w))) =
     [command_wt (git_fetch (BARE_PATH sys)) None False,
      command_wt (git_show_ref (BARE_PATH sys) (''refs/heads/'' @ branch)) None True,
      command_wt (git_show_ref (BARE_PATH sys) (''refs/remotes/origin/'' @ branch)) None True]
     @ (if \<not> isl rl then
          [command_wt (git_worktree_add (BARE_PATH sys) path branch) None False]
        else if \<not> isl rr then
          command_wt (git_branch_track (BARE_PATH sys) branch) None False
          # (if isl (fst (execSync sys (command_wt (git_branch_track (BARE_PATH sys) branch) None False) w3))
             then []
             else [command_wt (git_worktree_add (BARE_PATH sys) path branch) None False])
        else
          [command_wt (git_worktree_add_new (BARE_PATH sys) branch path) None False])
     @ tail
     \<and> set tail \<subseteq> {command_wt ''pnpm install'' (Some path) False}"
proof -
  note s1 = load [unfolded loadConfig_wt_initial [OF load]]
  note ev = worktrees_root_string [OF root] prog_defs Let_def initial_def wt_apply
        resolve_branch_def branch_ref_def
  show ?thesis
  proof (cases rl)
    case (Inr ol)
    obtain ra wa where add: "execSync sys (command_wt
        (git_worktree_add (BARE_PATH sys) path branch) None False) w3 = (ra, wa)"
      by force
    obtain rp wp where pnpm: "execSync sys (command_wt ''pnpm install'' (Some path) False) wa = (rp, wp)"
      by force
    show ?thesis
      unfolding main_wt_def args
      using s1 bare free [unfolded path] fetch loc [unfolded Inr] rem add [unfolded path]
        pnpm [unfolded path] Inr
      by (cases rf; cases ra; cases rp) (simp_all add: ev path)
  next
    case (Inl el)
    note rl = this
    show ?thesis
    proof (cases rr)
      case (Inr orr)
      obtain rt wt where track: "execSync sys (command_wt
          (git_branch_track (BARE_PATH sys) branch) None False) w3 = (rt, wt)"
        by force
      obtain ra wa where add: "execSync sys (command_wt
          (git_worktree_add (BARE_PATH sys) path branch) None False) wt = (ra, wa)"
        by force
      obtain rp wp where pnpm: "execSync sys (command_wt ''pnpm install'' (Some path) False) wa = (rp, wp)"
        by force
      show ?thesis
        unfolding main_wt_def args
        using s1 bare free [unfolded path] fetch loc [unfolded rl] rem [unfolded Inr] track
          add [unfolded path] pnpm [unfolded path] rl Inr
        by (cases rf; cases rt; cases ra; cases rp) (simp_all add: ev path)
    next
      case (Inl er)
      obtain ra wa where add: "execSync sys (command_wt
          (git_worktree_add_new (BARE_PATH sys) branch path) None False) w3 = (ra, wa)"
        by force
      obtain rp wp where pnpm: "execSync sys (command_wt ''pnpm install'' (Some path) False) wa = (rp, wp)"
        by force
      show ?thesis
        unfolding main_wt_def args
        using s1 bare free [unfolded path] fetch loc [unfolded rl] rem [unfolded Inl]
          add [unfolded path] pnpm [unfolded path] rl Inl
        by (cases rf; cases ra; cases rp) (simp_all add: ev path)
    qed
  qed
qed


text \<open>
  Claim C1. When the worktree-creation procedure gets past its guards (a branch argument,
  a configuration that loads, the bare repository present, the target path free), the
  commands it runs are the fetch, the check of \<^verbatim>\<open>refs/heads/<branch>\<close>, the check of
  \<^verbatim>\<open>refs/remotes/origin/<branch>\<close>, and then exactly one of three actions, the first
  that applies: the local ref exists (its check succeeded), and the worktree is added for
  the existing branch, with no \<^verbatim>\<open>-b\<close> and no branch creation; else the remote-tracking
  ref exists, and the tracking branch is created and, when that succeeded, the worktree is
  added without \<^verbatim>\<open>-b\<close>; else the worktree is added with \<^verbatim>\<open>-b\<close>. Nothing follows
  but the dependency installation.
\<close>

theorem C1_branch_resolution:
  assumes args: "args = branch # rest"
    and load: "loadConfig_wt sys (initial w) = (Ret config, s1)"
    and root: "js_get_optional (js_get_optional config ''worktrees'') ''root'' = JStr root"
    and path: "path = join [join [META_REPO_ROOT sys, root], sanitizeBranchName branch]"
    and bare: "existsSync sys (BARE_PATH sys) w"
    and free: "\<not> existsSync sys path w"
    and fetch: "execSync sys (command_wt (git_fetch (BARE_PATH sys)) None False) w = (rf, w1)"
    and loc: "execSync sys (command_wt
        (git_show_ref (BARE_PATH sys) (''refs/heads/'' @ branch)) None True) w1 = (rl, w2)"
    and rem: "execSync sys (command_wt
        (git_show_ref (BARE_PATH sys) (''refs/remotes/origin/'' @ branch)) None True) w2 = (rr, w3)"
  shows "\<exists>tail. cmds (snd (main_wt sys args (initial w))) =
     [command_wt (git_fetch (BARE_PATH sys)) None False,
      command_wt (git_show_ref (BARE_PATH sys) (''refs/heads/'' @ branch)) None True,
      command_wt (git_show_ref (BARE_PATH sys) (''refs/remotes/origin/'' @ branch)) None True]
     @ (if \<not> isl rl then
          [command_wt (git_worktree_add (BARE_PATH sys) path branch) None False]
        else if \<not> isl rr then
          command_wt (git_branch_track (BARE_PATH sys) branch) None False
          # (if isl (fst (execSync sys (command_wt (git_branch_track (BARE_PATH sys) branch) None False) w3))
             then []
             else [command_wt (git_worktree_add (BARE_PATH sys) path branch) None False])
        else
          [command_wt (git_worktree_add_new (BARE_PATH sys) branch path) None False])
     @ tail
     \<and> set tail \<subseteq> {command_wt ''pnpm install'' (Some path) False}"
  using assms by (rule main_wt_commands)

section \<open>Runs in the example environments\<close>

lemma sanitize_demo: "sanitizeBranchName ''feature/x'' = ''feature__x''"
  by (simp add: sanitize_Cons sanitize_Nil safe_char_def is_upper_def is_lower_def is_digit_def)

lemmas demo_defs = demo_sys_def demo_parse_def demo_config_text_def demo_blank_text_def
  CONFIG_PATH_def BARE_PATH_def join_demo sanitize_demo

lemma demo_loadConfig_bootstrap:
  "loadConfig_bootstrap (demo_sys dirs [(''/repo/project.config.json'', demo_config_text)] failing) s =
     (Ret (JObj [(''codebase'', JObj [(''remote'', JStr ''git@host:org/repo.git''),
                                      (''defaultBranch'', JStr ''main'')]),
                 (''worktrees'', JObj [(''root'', JStr ''worktrees'')])]), s)"
  by (simp add: loadConfig_bootstrap_apply demo_defs apply_defaults_def js_set_nested_def
      ebind_def own_property_def js_or_def js_trim_def js_whitespace_def)

lemma demo_loadConfig_wt:
  "loadConfig_wt (demo_sys dirs [(''/repo/project.config.json'', demo_config_text)] failing) s =
     (Ret (JObj [(''codebase'', JObj [(''remote'', JStr ''git@host:org/repo.git''),
                                      (''defaultBranch'', JStr ''main'')]),
                 (''worktrees'', JObj [(''root'', JStr ''worktrees'')])]), s)"
  by (simp add: loadConfig_wt_apply demo_defs apply_defaults_def js_set_nested_def
      ebind_def own_property_def js_or_def)

text \<open>
  Witness for C7: a configuration that gives only the remote is loaded by both loaders,
  with both defaults.
\<close>

theorem C7_defaults_applied_witness:
  "loadConfig_bootstrap (demo_sys [] [(''/repo/project.config.json'', demo_config_text)] []) (initial ())
     = (Ret (JObj [(''codebase'', JObj [(''remote'', JStr ''git@host:org/repo.git''),
                                        (''defaultBranch'', JStr ''main'')]),
                   (''worktrees'', JObj [(''root'', JStr ''worktrees'')])]), initial ())
   \<and> loadConfig_wt (demo_sys [] [(''/repo/project.config.json'', demo_config_text)] []) (initial ())
     = (Ret (JObj [(''codebase'', JObj [(''remote'', JStr ''git@host:org/repo.git''),
                                        (''defaultBranch'', JStr ''main'')]),
                   (''worktrees'', JObj [(''root'', JStr ''worktrees'')])]), initial ())
   \<and> (\<exists>c0. loadConfig_bootstrap (demo_sys [] [(''/repo/project.config.json'', demo_config_text)] [])
              (initial ()) = (Ret c0, initial ())
          \<and> loadConfig_wt (demo_sys [] [(''/repo/project.config.json'', demo_config_text)] [])
              (initial ()) = (Ret c0, initial ()))
   \<and> (\<exists>content v.
        readFileSync (demo_sys [] [(''/repo/project.config.json'', demo_config_text)] [])
          (CONFIG_PATH (demo_sys [] [(''/repo/project.config.json'', demo_config_text)] []))
          (world (initial ())) = Inr content
        \<and> demo_parse content = Inr v
        \<and> js_get_optional (js_get_optional v ''codebase'') ''defaultBranch'' = JUndefined
        \<and> js_get_optional v ''worktrees'' = JUndefined
        \<and> js_get_optional (js_get_optional v ''codebase'') ''remote'' = JStr ''git@host:org/repo.git'')"
proof -
  let ?E = "demo_sys [] [(''/repo/project.config.json'', demo_config_text)] []"
  let ?c = "JObj [(''codebase'', JObj [(''remote'', JStr ''git@host:org/repo.git''),
                                        (''defaultBranch'', JStr ''main'')]),
                   (''worktrees'', JObj [(''root'', JStr ''worktrees'')])]"
  let ?v = "JObj [(''codebase'', JObj [(''remote'', JStr ''git@host:org/repo.git'')])]"
  have hb: "loadConfig_bootstrap ?E (initial ()) = (Ret ?c, initial ())"
    by (rule demo_loadConfig_bootstrap)
  have hw: "loadConfig_wt ?E (initial ()) = (Ret ?c, initial ())"
    by (rule demo_loadConfig_wt)
  have ex: "existsSync ?E (CONFIG_PATH ?E) (world (initial ()))"
    and rd: "readFileSync ?E (CONFIG_PATH ?E) (world (initial ())) = Inr demo_config_text"
    and ps: "JSON_parse ?E demo_config_text = Inr ?v"
    by (simp_all add: demo_defs)
  have rem: "js_get_optional (js_get_optional ?v ''codebase'') ''remote'' = JStr ''git@host:org/repo.git''"
    and wk: "is_object (js_get_optional ?v ''worktrees'')
             \<or> \<not> truthy (number_falsy ?E) (js_get_optional ?v ''worktrees'')"
    by (simp_all add: own_property_def)
  have tr: "js_trim ''git@host:org/repo.git'' \<noteq> []"
    by (simp add: js_trim_def js_whitespace_def)
  note T = C7_defaults_applied [of ?E "initial ()" ?c "initial ()" demo_config_text ?v
      "''git@host:org/repo.git''"]
  from T ex rd ps rem tr wk have both: "\<exists>c0. loadConfig_bootstrap ?E (initial ()) = (Ret c0, initial ())
          \<and> loadConfig_wt ?E (initial ()) = (Ret c0, initial ())"
    by blast
  from T hw obtain content v where
    "readFileSync ?E (CONFIG_PATH ?E) (world (initial ())) = Inr content"
    "JSON_parse ?E content = Inr v"
    "\<forall>k. k \<noteq> ''defaultBranch'' \<longrightarrow>
            js_get_optional (js_get_optional ?c ''codebase'') k
              = js_get_optional (js_get_optional v ''codebase'') k"
    by blast
  moreover from this have "content = demo_config_text"
    by (simp add: demo_defs)
  ultimately have "\<exists>content v.
        readFileSync ?E (CONFIG_PATH ?E) (world (initial ())) = Inr content
        \<and> demo_parse content = Inr v
        \<and> js_get_optional (js_get_optional v ''codebase'') ''defaultBranch'' = JUndefined
        \<and> js_get_optional v ''worktrees'' = JUndefined
        \<and> js_get_optional (js_get_optional v ''codebase'') ''remote'' = JStr ''git@host:org/repo.git''"
    by (auto simp: demo_defs own_property_def)
  with hb hw both show ?thesis by blast
qed

section \<open>The guards of worktree creation\<close>

text \<open>
  Claim C4. In the worktree-creation procedure the guards come before the fetch: when the
  bare repository is absent, the process ends with exit code 1 and no external command
  has run (no fetch, no worktree-add); when the target worktree path exists, the process
  ends with exit code 1 and no external command has run (no fetch).
\<close>

theorem C4_guards_before_fetch:
  "(\<not> existsSync sys (BARE_PATH sys) w \<longrightarrow>
      exit_code (fst (main_wt sys args (initial w))) = 1
      \<and> cmds (snd (main_wt sys args (initial w))) = []
      \<and> world (snd (main_wt sys args (initial w))) = w)
   \<and> (args = branch # rest
       \<and> loadConfig_wt sys (initial w) = (Ret config, s1)
       \<and> js_get_optional (js_get_optional config ''worktrees'') ''root'' = JStr root
       \<and> existsSync sys (join [join [META_REPO_ROOT sys, root], sanitizeBranchName branch]) w \<longrightarrow>
      exit_code (fst (main_wt sys args (initial w))) = 1
      \<and> cmds (snd (main_wt sys args (initial w))) = []
      \<and> world (snd (main_wt sys args (initial w))) = w)"
proof -
  have 2: "exit_code (fst (main_wt sys args (initial w))) = 1
      \<and> cmds (snd (main_wt sys args (initial w))) = []
      \<and> world (snd (main_wt sys args (initial w))) = w"
    if a: "args = branch # rest
       \<and> loadConfig_wt sys (initial w) = (Ret config, s1)
       \<and> js_get_optional (js_get_optional config ''worktrees'') ''root'' = JStr root
       \<and> existsSync sys (join [join [META_REPO_ROOT sys, root], sanitizeBranchName branch]) w"
  proof -
    from a have load: "loadConfig_wt sys (initial w) = (Ret config, s1)" by simp
    note s1 = load [unfolded loadConfig_wt_initial [OF load]]
    from a have root: "js_get_optional (js_get_optional config ''worktrees'') ''root'' = JStr root"
      by simp
    show ?thesis
    proof (cases "existsSync sys (BARE_PATH sys) w")
      case False
      then show ?thesis by (rule main_wt_no_bare)
    next
      case True
      with a s1 show ?thesis
        by (simp add: main_wt_def worktrees_root_string [OF root] prog_defs Let_def initial_def
            exit_code_def)
    qed
  qed
  from main_wt_no_bare [of sys w args] 2 show ?thesis by blast
qed

lemmas join_eval = join_def normalize_def normalizeString_def normalize_step_def

lemmas sanitize_eval = sanitize_Cons sanitize_Nil safe_char_def is_upper_def is_lower_def is_digit_def

lemma demo_root:
  "js_get_optional (js_get_optional
     (JObj [(''codebase'', JObj [(''remote'', JStr ''git@host:org/repo.git''),
                                 (''defaultBranch'', JStr ''main'')]),
            (''worktrees'', JObj [(''root'', JStr ''worktrees'')])]) ''worktrees'') ''root''
   = JStr ''worktrees''"
  by (simp add: own_property_def)

lemma demo_path:
  "join [join [''/repo'', ''worktrees''], sanitizeBranchName ''feature/x''] = ''/repo/worktrees/feature__x''"
  by (simp add: join_demo sanitize_demo)

text \<open>
  Witness for C4: one environment without the bare repository, one where the target
  path of \<^verbatim>\<open>feature/x\<close> exists.
\<close>

theorem C4_guards_before_fetch_witness:
  "(\<not> existsSync (demo_sys [] [(''/repo/project.config.json'', demo_config_text)] [])
        (BARE_PATH (demo_sys [] [(''/repo/project.config.json'', demo_config_text)] [])) ()
    \<and> exit_code (fst (main_wt (demo_sys [] [(''/repo/project.config.json'', demo_config_text)] [])
          [''feature/x''] (initial ()))) = 1
    \<and> cmds (snd (main_wt (demo_sys [] [(''/repo/project.config.json'', demo_config_text)] [])
          [''feature/x''] (initial ()))) = [])
   \<and> (existsSync (demo_sys [''/repo/.bare'', ''/repo/worktrees/feature__x'']
           [(''/repo/project.config.json'', demo_config_text)] [])
         (join [join [''/repo'', ''worktrees''], sanitizeBranchName ''feature/x'']) ()
    \<and> exit_code (fst (main_wt (demo_sys [''/repo/.bare'', ''/repo/worktrees/feature__x'']
           [(''/repo/project.config.json'', demo_config_text)] []) [''feature/x''] (initial ()))) = 1
    \<and> cmds (snd (main_wt (demo_sys [''/repo/.bare'', ''/repo/worktrees/feature__x'']
           [(''/repo/project.config.json'', demo_config_text)] []) [''feature/x''] (initial ()))) = [])"
proof -
  let ?E1 = "demo_sys [] [(''/repo/project.config.json'', demo_config_text)] []"
  let ?E2 = "demo_sys [''/repo/.bare'', ''/repo/worktrees/feature__x'']
           [(''/repo/project.config.json'', demo_config_text)] []"
  let ?c = "JObj [(''codebase'', JObj [(''remote'', JStr ''git@host:org/repo.git''),
                                        (''defaultBranch'', JStr ''main'')]),
                   (''worktrees'', JObj [(''root'', JStr ''worktrees'')])]"
  have h1: "\<not> existsSync ?E1 (BARE_PATH ?E1) ()"
    by (simp add: demo_defs)
  have l2: "loadConfig_wt ?E2 (initial ()) = (Ret ?c, initial ())"
    by (rule demo_loadConfig_wt)
  have p2: "existsSync ?E2 (join [join [META_REPO_ROOT ?E2, ''worktrees''], sanitizeBranchName ''feature/x'']) ()"
    by (simp add: demo_defs)
  have m2: "META_REPO_ROOT ?E2 = ''/repo''"
    by (simp add: demo_defs)
  from C4_guards_before_fetch [of ?E1 "()" "[''feature/x'']"] h1
  have 1: "exit_code (fst (main_wt ?E1 [''feature/x''] (initial ()))) = 1
    \<and> cmds (snd (main_wt ?E1 [''feature/x''] (initial ()))) = []"
    by blast
  from C4_guards_before_fetch [of ?E2 "()" "[''feature/x'']" "''feature/x''" "[]" ?c "initial ()" "''worktrees''"]
    l2 demo_root p2
  have 2: "exit_code (fst (main_wt ?E2 [''feature/x''] (initial ()))) = 1
    \<and> cmds (snd (main_wt ?E2 [''feature/x''] (initial ()))) = []"
    by blast
  from p2 have p2': "existsSync ?E2 (join [join [''/repo'', ''worktrees''], sanitizeBranchName ''feature/x'']) ()"
    by (simp only: m2)
  from h1 1 p2' 2 show ?thesis by blast
qed

text \<open>
  Witness for C1: the local branch is absent and the remote one present, so the tracking
  branch is created and the worktree added from it.
\<close>

theorem C1_branch_resolution_witness:
  "\<exists>tail. cmds (snd (main_wt
       (demo_sys [''/repo/.bare''] [(''/repo/project.config.json'', demo_config_text)]
          [git_show_ref ''/repo/.bare'' ''refs/heads/feature/x''])
       [''feature/x''] (initial ()))) =
     [command_wt (git_fetch ''/repo/.bare'') None False,
      command_wt (git_show_ref ''/repo/.bare'' ''refs/heads/feature/x'') None True,
      command_wt (git_show_ref ''/repo/.bare'' ''refs/remotes/origin/feature/x'') None True,
      command_wt (git_branch_track ''/repo/.bare'' ''feature/x'') None False,
      command_wt (git_worktree_add ''/repo/.bare'' ''/repo/worktrees/feature__x'' ''feature/x'') None False]
     @ tail
     \<and> set tail \<subseteq> {command_wt ''pnpm install'' (Some ''/repo/worktrees/feature__x'') False}"
proof -
  let ?E = "demo_sys [''/repo/.bare''] [(''/repo/project.config.json'', demo_config_text)]
          [git_show_ref ''/repo/.bare'' ''refs/heads/feature/x'']"
  let ?c = "JObj [(''codebase'', JObj [(''remote'', JStr ''git@host:org/repo.git''),
                                        (''defaultBranch'', JStr ''main'')]),
                   (''worktrees'', JObj [(''root'', JStr ''worktrees'')])]"
  have l: "loadConfig_wt ?E (initial ()) = (Ret ?c, initial ())"
    by (rule demo_loadConfig_wt)
  have m: "META_REPO_ROOT ?E = ''/repo''" and b: "BARE_PATH ?E = ''/repo/.bare''"
    by (simp_all add: demo_defs)
  have p: "''/repo/worktrees/feature__x'' = join [join [META_REPO_ROOT ?E, ''worktrees''], sanitizeBranchName ''feature/x'']"
    by (simp add: m join_demo sanitize_demo)
  have bare: "existsSync ?E (BARE_PATH ?E) ()"
    by (simp add: demo_defs)
  have free: "\<not> existsSync ?E ''/repo/worktrees/feature__x'' ()"
    by (simp add: demo_defs)
  have fetch: "execSync ?E (command_wt (git_fetch (BARE_PATH ?E)) None False) () = (Inr [], ())"
    by (simp add: b) (simp add: demo_sys_def command_wt_def git_fetch_def git_show_ref_def quoted_def)
  have loc: "execSync ?E (command_wt
        (git_show_ref (BARE_PATH ?E) (''refs/heads/'' @ ''feature/x'')) None True) ()
         = (Inl \<lparr>stderr = Some ''failed'', message = None\<rparr>, ())"
    by (simp add: b) (simp add: demo_sys_def command_wt_def)
  have rem: "execSync ?E (command_wt
        (git_show_ref (BARE_PATH ?E) (''refs/remotes/origin/'' @ ''feature/x'')) None True) ()
         = (Inr [], ())"
    by (simp add: b) (simp add: demo_sys_def command_wt_def git_show_ref_def quoted_def)
  have track: "\<not> isl (fst (execSync ?E (command_wt (git_branch_track (BARE_PATH ?E) ''feature/x'') None False) ()))"
    by (simp add: b) (simp add: demo_sys_def command_wt_def git_show_ref_def git_branch_track_def quoted_def)
  from C1_branch_resolution [OF refl l demo_root p bare free fetch loc rem, of "[]"] track
  show ?thesis
    by (simp add: b)
qed

section \<open>The remote in the two loaders\<close>

lemma loadConfig_bootstrap_rejects_remote:
  assumes "existsSync sys (CONFIG_PATH sys) (world s)"
    and "readFileSync sys (CONFIG_PATH sys) (world s) = Inr content"
    and "JSON_parse sys content = Inr v"
    and "js_get_optional (js_get_optional v ''codebase'') ''remote'' = JUndefined
         \<or> (\<exists>r. js_get_optional (js_get_optional v ''codebase'') ''remote'' = JStr r \<and> js_trim r = [])"
  shows "\<exists>s'. loadConfig_bootstrap sys s = (Exit 1, s') \<and> cmds s' = cmds s \<and> world s' = world s"
proof (cases "js_get v ''codebase''")
  case (Inl e)
  with assms show ?thesis
    by (simp add: loadConfig_bootstrap_apply parse_failed_apply)
next
  case (Inr cb)
  from js_get_Inr [OF this] assms(4)
  have "\<not> truthy (number_falsy sys) (js_get_optional cb ''remote'')
        \<or> (case js_get_optional cb ''remote'' of JStr r \<Rightarrow> js_trim r = [] | _ \<Rightarrow> True)"
    by auto
  with assms(1-3) Inr show ?thesis
    by (simp add: loadConfig_bootstrap_apply)
qed

lemma loadConfig_wt_rejects_remote:
  assumes "existsSync sys (CONFIG_PATH sys) (world s)"
    and "readFileSync sys (CONFIG_PATH sys) (world s) = Inr content"
    and "JSON_parse sys content = Inr v"
    and "js_get_optional (js_get_optional v ''codebase'') ''remote'' = JUndefined
         \<or> js_get_optional (js_get_optional v ''codebase'') ''remote'' = JStr []"
  shows "\<exists>s'. loadConfig_wt sys s = (Exit 1, s') \<and> cmds s' = cmds s \<and> world s' = world s"
proof (cases "js_get v ''codebase''")
  case (Inl e)
  with assms show ?thesis
    by (simp add: loadConfig_wt_apply parse_failed_apply)
next
  case (Inr cb)
  from js_get_Inr [OF this] assms(4)
  have "\<not> truthy (number_falsy sys) (js_get_optional cb ''remote'')"
    by auto
  with assms(1-3) Inr show ?thesis
    by (simp add: loadConfig_wt_apply)
qed

lemma demo_blank_loadConfig_wt:
  "loadConfig_wt (demo_sys dirs [(''/repo/project.config.json'', demo_blank_text)] failing) s =
     (Ret (JObj [(''codebase'', JObj [(''remote'', JStr ''   ''),
                                      (''defaultBranch'', JStr ''main'')]),
                 (''worktrees'', JObj [(''root'', JStr ''worktrees'')])]), s)"
  by (simp add: loadConfig_wt_apply demo_defs apply_defaults_def js_set_nested_def
      ebind_def own_property_def js_or_def)

text \<open>
  Claim C3, on the code: a configuration whose \<^verbatim>\<open>codebase.remote\<close> is three spaces. The
  loader of the bootstrap script ends the process with exit code 1, without a command. The
  loader of the worktree-creation script accepts the configuration, and the procedure goes
  on to fetch, check the refs, add the worktree and install, and ends with exit code 0.
\<close>

theorem C3_blank_remote_accepted_by_worktree_loader:
  "js_trim ''   '' = []
   \<and> demo_parse demo_blank_text = Inr (JObj [(''codebase'', JObj [(''remote'', JStr ''   '')])])
   \<and> fst (loadConfig_bootstrap
        (demo_sys [''/repo/.bare''] [(''/repo/project.config.json'', demo_blank_text)] [])
        (initial ())) = Exit 1
   \<and> cmds (snd (loadConfig_bootstrap
        (demo_sys [''/repo/.bare''] [(''/repo/project.config.json'', demo_blank_text)] [])
        (initial ()))) = []
   \<and> exit_code (fst (main_wt
        (demo_sys [''/repo/.bare''] [(''/repo/project.config.json'', demo_blank_text)] [])
        [''feature/x''] (initial ()))) = 0
   \<and> cmds (snd (main_wt
        (demo_sys [''/repo/.bare''] [(''/repo/project.config.json'', demo_blank_text)] [])
        [''feature/x''] (initial ()))) =
       [command_wt (git_fetch ''/repo/.bare'') None False,
        command_wt (git_show_ref ''/repo/.bare'' ''refs/heads/feature/x'') None True,
        command_wt (git_show_ref ''/repo/.bare'' ''refs/remotes/origin/feature/x'') None True,
        command_wt (git_worktree_add ''/repo/.bare'' ''/repo/worktrees/feature__x'' ''feature/x'') None False,
        command_wt ''pnpm install'' (Some ''/repo/worktrees/feature__x'') False]"
proof -
  let ?E = "demo_sys [''/repo/.bare''] [(''/repo/project.config.json'', demo_blank_text)] []"
  have t: "js_trim ''   '' = []"
    by (simp add: js_trim_def js_whitespace_def)
  have p: "demo_parse demo_blank_text = Inr (JObj [(''codebase'', JObj [(''remote'', JStr ''   '')])])"
    by (simp add: demo_parse_def demo_blank_text_def demo_config_text_def)
  have b: "fst (loadConfig_bootstrap ?E (initial ())) = Exit 1
           \<and> cmds (snd (loadConfig_bootstrap ?E (initial ()))) = []"
    by (simp add: loadConfig_bootstrap_apply demo_defs own_property_def t initial_def)
  have ex: "\<And>c. execSync ?E c () = (Inr [], ())"
    by (simp add: demo_sys_def)
  have m: "main_wt ?E [''feature/x''] (initial ()) =
      (Ret (), snd (main_wt ?E [''feature/x''] (initial ())))
    \<and> cmds (snd (main_wt ?E [''feature/x''] (initial ()))) =
       [command_wt (git_fetch ''/repo/.bare'') None False,
        command_wt (git_show_ref ''/repo/.bare'' ''refs/heads/feature/x'') None True,
        command_wt (git_show_ref ''/repo/.bare'' ''refs/remotes/origin/feature/x'') None True,
        command_wt (git_worktree_add ''/repo/.bare'' ''/repo/worktrees/feature__x'' ''feature/x'') None False,
        command_wt ''pnpm install'' (Some ''/repo/worktrees/feature__x'') False]"
    unfolding main_wt_def
    by (simp add: demo_blank_loadConfig_wt ex prog_defs Let_def initial_def wt_apply
        resolve_branch_def branch_ref_def own_property_def ebind_def join_values_def)
       (simp add: demo_defs)
  from m have "fst (main_wt ?E [''feature/x''] (initial ())) = Ret ()"
    by (metis fst_conv)
  then have "exit_code (fst (main_wt ?E [''feature/x''] (initial ()))) = 0"
    by (simp add: exit_code_def)
  with t p b m show ?thesis by simp
qed

text \<open>
  The same run, read off the theorem: the bootstrap loader stops, the worktree-creation
  procedure completes.
\<close>

theorem C3_blank_remote_accepted_by_worktree_loader_witness:
  "fst (loadConfig_bootstrap
        (demo_sys [''/repo/.bare''] [(''/repo/project.config.json'', demo_blank_text)] [])
        (initial ())) = Exit 1
   \<and> exit_code (fst (main_wt
        (demo_sys [''/repo/.bare''] [(''/repo/project.config.json'', demo_blank_text)] [])
        [''feature/x''] (initial ()))) = 0"
  using C3_blank_remote_accepted_by_worktree_loader by blast

section \<open>The linkage check of bootstrap\<close>

lemma loadConfig_bootstrap_any_state:
  assumes "loadConfig_bootstrap sys s = (Ret c, s')" and "world t = world s"
  shows "loadConfig_bootstrap sys t = (Ret c, t)"
  using assms
  by (auto simp: loadConfig_bootstrap_apply parse_failed_apply split: if_splits sum.splits)

lemma loadConfig_bootstrap_remote:
  assumes "loadConfig_bootstrap sys s = (Ret c, s')"
  shows "\<exists>r. js_get_optional (js_get_optional c ''codebase'') ''remote'' = JStr r"
proof -
  from assms obtain content v cb where v: "JSON_parse sys content = Inr v"
    and cb: "js_get v ''codebase'' = Inr cb"
    and ok: "\<not> (case js_get_optional cb ''remote'' of JStr r \<Rightarrow> js_trim r = [] | _ \<Rightarrow> True)"
    and ad: "apply_defaults (number_falsy sys) v = Inr c"
    by (auto simp: loadConfig_bootstrap_apply parse_failed_apply split: if_splits sum.splits)
  from ok obtain r where "js_get_optional cb ''remote'' = JStr r"
    by (cases "js_get_optional cb ''remote''") auto
  with js_get_Inr [OF cb] apply_defaults_fields(1) [OF ad, of "''remote''"] show ?thesis
    by simp
qed

text \<open>
  Claim C5 as stated fails: a linkage file with a space before \<^verbatim>\<open>gitdir:\<close> does not begin
  with the prefix, yet the code trims the content before it looks at it, accepts the
  worktree and goes on to install. In this environment the main worktree exists, is a
  working tree, and its \<^verbatim>\<open>.git\<close> file is \<^verbatim>\<open> gitdir: /repo/.bare/worktrees/main\<close>.
\<close>

theorem C5_leading_space_counterexample:
  "existsSync (demo_sys [''/repo/.bare'', ''/repo/worktrees/main'']
       [(''/repo/project.config.json'', demo_config_text),
        (''/repo/worktrees/main/.git'', '' gitdir: /repo/.bare/worktrees/main'')] [])
     ''/repo/worktrees/main'' ()
   \<and> fst (execSync (demo_sys [''/repo/.bare'', ''/repo/worktrees/main'']
       [(''/repo/project.config.json'', demo_config_text),
        (''/repo/worktrees/main/.git'', '' gitdir: /repo/.bare/worktrees/main'')] [])
       (command_bootstrap (git_rev_parse ''/repo/worktrees/main'') None) ()) = Inr []
   \<and> readFileSync (demo_sys [''/repo/.bare'', ''/repo/worktrees/main'']
       [(''/repo/project.config.json'', demo_config_text),
        (''/repo/worktrees/main/.git'', '' gitdir: /repo/.bare/worktrees/main'')] [])
       ''/repo/worktrees/main/.git'' () = Inr '' gitdir: /repo/.bare/worktrees/main''
   \<and> \<not> startsWith '' gitdir: /repo/.bare/worktrees/main'' ''gitdir:''
   \<and> exit_code (fst (main_bootstrap (demo_sys [''/repo/.bare'', ''/repo/worktrees/main'']
       [(''/repo/project.config.json'', demo_config_text),
        (''/repo/worktrees/main/.git'', '' gitdir: /repo/.bare/worktrees/main'')] [])
       (initial ()))) = 0
   \<and> cmds (snd (main_bootstrap (demo_sys [''/repo/.bare'', ''/repo/worktrees/main'']
       [(''/repo/project.config.json'', demo_config_text),
        (''/repo/worktrees/main/.git'', '' gitdir: /repo/.bare/worktrees/main'')] [])
       (initial ()))) =
       [command_bootstrap (git_rev_parse ''/repo/worktrees/main'') None,
        command_bootstrap ''corepack enable'' None,
        command_bootstrap ''pnpm install'' (Some ''/repo/worktrees/main'')]"
proof -
  let ?E = "demo_sys [''/repo/.bare'', ''/repo/worktrees/main'']
       [(''/repo/project.config.json'', demo_config_text),
        (''/repo/worktrees/main/.git'', '' gitdir: /repo/.bare/worktrees/main'')] []"
  let ?c = "JObj [(''codebase'', JObj [(''remote'', JStr ''git@host:org/repo.git''),
                                        (''defaultBranch'', JStr ''main'')]),
                   (''worktrees'', JObj [(''root'', JStr ''worktrees'')])]"
  have l: "\<And>s. loadConfig_bootstrap ?E s = (Ret ?c, s)"
    by (simp add: loadConfig_bootstrap_apply demo_defs apply_defaults_def js_set_nested_def
      ebind_def own_property_def js_or_def js_trim_def js_whitespace_def)
  have ex: "\<And>c. execSync ?E c () = (Inr [], ())"
    by (simp add: demo_sys_def)
  have e1: "existsSync ?E ''/repo/worktrees/main'' ()"
    and e2: "existsSync ?E ''/repo/.bare'' ()"
    and e3: "existsSync ?E ''/repo/worktrees/main/.git'' ()"
    and rd: "readFileSync ?E ''/repo/worktrees/main/.git'' () = Inr '' gitdir: /repo/.bare/worktrees/main''"
    and mr: "META_REPO_ROOT ?E = ''/repo''" and bp: "BARE_PATH ?E = ''/repo/.bare''"
    by (simp_all add: demo_defs)
  have ns: "\<not> startsWith '' gitdir: /repo/.bare/worktrees/main'' ''gitdir:''"
    by (simp add: startsWith_def)
  have v: "\<And>s. verifyWorktreePointsToOurBare ?E ''/repo/worktrees/main'' s = (Ret True, s)"
    by (simp add: verifyWorktreePointsToOurBare_apply join_demo e3 rd js_trim_def js_whitespace_def
        startsWith_def)
  have cw: "\<And>s. createWorktree_bootstrap ?E ?c s =
      (Ret (), s\<lparr>cmds := cmds s @ [command_bootstrap (git_rev_parse ''/repo/worktrees/main'') None],
             console := console s @ [(Log, Text ''Main worktree already exists and is valid.'')]\<rparr>)"
    by (subst createWorktree_bootstrap_existing [where root = "''worktrees''" and remote = "''git@host:org/repo.git''"])
       (simp_all add: own_property_def mr join_demo e1 ex v)
  have inst: "\<And>s. installDependencies_bootstrap ?E ?c s =
      (Ret (), s\<lparr>cmds := cmds s @ [command_bootstrap ''pnpm install'' (Some ''/repo/worktrees/main'')],
         console := console s @ [(Log, Text ''Installing dependencies in main worktree...''),
            (Log, Text ''Dependencies installed successfully.'')]\<rparr>)"
    by (subst installDependencies_bootstrap_apply [where root = "''worktrees''"])
       (simp_all add: own_property_def mr join_demo ex)
  have m: "fst (main_bootstrap ?E (initial ())) = Ret ()
    \<and> cmds (snd (main_bootstrap ?E (initial ()))) =
       [command_bootstrap (git_rev_parse ''/repo/worktrees/main'') None,
        command_bootstrap ''corepack enable'' None,
        command_bootstrap ''pnpm install'' (Some ''/repo/worktrees/main'')]"
    unfolding main_bootstrap_def
    by (simp add: l cw inst enableCorepack_apply ex prog_defs initial_def bp e2 mr
        own_property_def ebind_def join_values_def join_demo)
  then have "exit_code (fst (main_bootstrap ?E (initial ()))) = 0"
    by (simp add: exit_code_def)
  with e1 ex rd ns m show ?thesis by simp
qed

text \<open>
  Claim C5, amended. Take a bootstrap run whose configuration loads, with a string as
  worktree root. Let \<open>w1\<close> be the world in which the main worktree is looked at (the
  initial one, or the one the clone leaves when the bare repository was absent). When the
  main worktree directory exists in \<open>w1\<close>, the working-tree check succeeds there, and
  afterwards the \<^verbatim>\<open>.git\<close> file is absent, or unreadable, or its content with the white
  space trimmed at both ends does not begin with \<^verbatim>\<open>gitdir:\<close>, or the trimmed rest after
  that prefix does not contain \<^verbatim>\<open>.bare\<close>, then the process ends with exit code 1 and no
  \<^verbatim>\<open>pnpm install\<close> command has run.
\<close>

theorem C5_foreign_worktree_rejected:
  assumes load: "loadConfig_bootstrap sys (initial w) = (Ret config, s1)"
    and root: "js_get_optional (js_get_optional config ''worktrees'') ''root'' = JStr root"
    and remote: "js_get_optional (js_get_optional config ''codebase'') ''remote'' = JStr remote"
    and main: "mainWorktreePath = join [join [META_REPO_ROOT sys, root], ''main'']"
    and w1: "w1 = (if existsSync sys (BARE_PATH sys) w then w
                   else snd (execSync sys (command_bootstrap
                     (''git clone --bare '' @ quoted remote @ '' '' @ quoted (BARE_PATH sys)) None) w))"
    and found: "existsSync sys mainWorktreePath w1"
    and inside: "execSync sys (command_bootstrap (git_rev_parse mainWorktreePath) None) w1 = (Inr out, w2)"
    and linkage: "\<not> existsSync sys (join [mainWorktreePath, ''.git'']) w2
       \<or> isl (readFileSync sys (join [mainWorktreePath, ''.git'']) w2)
       \<or> (\<exists>raw. readFileSync sys (join [mainWorktreePath, ''.git'']) w2 = Inr raw
             \<and> (\<not> startsWith (js_trim raw) ''gitdir:''
                  \<or> \<not> includes_str (js_trim (drop (length ''gitdir:'') (js_trim raw))) ''.bare''))"
  shows "exit_code (fst (main_bootstrap sys (initial w))) = 1
     \<and> (\<forall>c \<in> set (cmds (snd (main_bootstrap sys (initial w)))). command_line c \<noteq> ''pnpm install'')"
proof -
  have l: "\<And>t. world t = w \<Longrightarrow> loadConfig_bootstrap sys t = (Ret config, t)"
    using loadConfig_bootstrap_any_state [OF load] by (simp add: initial_def)
  from remote have "js_get_optional (js_get_optional config ''codebase'') ''remote'' \<noteq> JUndefined"
    by simp
  note cf = codebase_field [OF this]
  have v: "fst (verifyWorktreePointsToOurBare sys (join [join [META_REPO_ROOT sys, root], ''main'']) t)
      \<noteq> Ret True" if "world t = w2" for t
    using linkage that unfolding main
    by (auto simp: verifyWorktreePointsToOurBare_apply split: sum.splits)
  note cw = createWorktree_bootstrap_existing [OF root remote]
  note found' = found [unfolded main] and inside' = inside [unfolded main]
  show ?thesis
  proof (cases "existsSync sys (BARE_PATH sys) w")
    case True
    with w1 have "w1 = w" by simp
    with True found' inside' v show ?thesis
      unfolding main_bootstrap_def
      by (cases "to_string (number_to_string sys)
                   (js_get_optional (js_get_optional config ''codebase'') ''defaultBranch'')")
         (simp_all add: l cf cw remote prog_defs initial_def exit_code_def git_rev_parse_def
           command_bootstrap_def)
  next
    case False
    obtain rc wc where clone: "execSync sys (command_bootstrap
        (''git clone --bare '' @ quoted remote @ '' '' @ quoted (BARE_PATH sys)) None) w = (rc, wc)"
      by force
    with w1 False have "w1 = wc" by simp
    with False found' inside' v clone show ?thesis
      unfolding main_bootstrap_def
      by (cases rc;
          cases "to_string (number_to_string sys)
                   (js_get_optional (js_get_optional config ''codebase'') ''defaultBranch'')")
         (simp_all add: l cf cw remote cloneBareRepo_apply prog_defs initial_def exit_code_def
          git_rev_parse_def command_bootstrap_def)
  qed
qed

text \<open>
  Witness for the amended C5: the \<^verbatim>\<open>.git\<close> file of the main worktree points to another
  repository.
\<close>

theorem C5_foreign_worktree_rejected_witness:
  "readFileSync (demo_sys [''/repo/.bare'', ''/repo/worktrees/main'']
       [(''/repo/project.config.json'', demo_config_text),
        (''/repo/worktrees/main/.git'', ''gitdir: /elsewhere/.git/worktrees/main'')] [])
     ''/repo/worktrees/main/.git'' () = Inr ''gitdir: /elsewhere/.git/worktrees/main''
   \<and> \<not> includes_str (js_trim (drop (length ''gitdir:'') (js_trim ''gitdir: /elsewhere/.git/worktrees/main''))) ''.bare''
   \<and> exit_code (fst (main_bootstrap (demo_sys [''/repo/.bare'', ''/repo/worktrees/main'']
       [(''/repo/project.config.json'', demo_config_text),
        (''/repo/worktrees/main/.git'', ''gitdir: /elsewhere/.git/worktrees/main'')] [])
       (initial ()))) = 1
   \<and> command_bootstrap ''pnpm install'' (Some ''/repo/worktrees/main'')
       \<notin> set (cmds (snd (main_bootstrap (demo_sys [''/repo/.bare'', ''/repo/worktrees/main'']
       [(''/repo/project.config.json'', demo_config_text),
        (''/repo/worktrees/main/.git'', ''gitdir: /elsewhere/.git/worktrees/main'')] [])
       (initial ()))))"
proof -
  let ?E = "demo_sys [''/repo/.bare'', ''/repo/worktrees/main'']
       [(''/repo/project.config.json'', demo_config_text),
        (''/repo/worktrees/main/.git'', ''gitdir: /elsewhere/.git/worktrees/main'')] []"
  let ?c = "JObj [(''codebase'', JObj [(''remote'', JStr ''git@host:org/repo.git''),
                                        (''defaultBranch'', JStr ''main'')]),
                   (''worktrees'', JObj [(''root'', JStr ''worktrees'')])]"
  have l: "loadConfig_bootstrap ?E (initial ()) = (Ret ?c, initial ())"
    by (simp add: loadConfig_bootstrap_apply demo_defs apply_defaults_def js_set_nested_def
      ebind_def own_property_def js_or_def js_trim_def js_whitespace_def)
  have rem: "js_get_optional (js_get_optional ?c ''codebase'') ''remote'' = JStr ''git@host:org/repo.git''"
    by (simp add: own_property_def)
  have p: "''/repo/worktrees/main'' = join [join [META_REPO_ROOT ?E, ''worktrees''], ''main'']"
    by (simp add: demo_defs)
  have w1: "() = (if existsSync ?E (BARE_PATH ?E) () then ()
                   else snd (execSync ?E (command_bootstrap
                     (''git clone --bare '' @ quoted ''git@host:org/repo.git'' @ '' '' @ quoted (BARE_PATH ?E)) None) ()))"
    by simp
  have found: "existsSync ?E ''/repo/worktrees/main'' ()"
    by (simp add: demo_defs)
  have inside: "execSync ?E (command_bootstrap (git_rev_parse ''/repo/worktrees/main'') None) () = (Inr [], ())"
    by (simp add: demo_sys_def)
  have rd: "readFileSync ?E ''/repo/worktrees/main/.git'' () = Inr ''gitdir: /elsewhere/.git/worktrees/main''"
    by (simp add: demo_defs)
  have nb: "\<not> includes_str (js_trim (drop (length ''gitdir:'') (js_trim ''gitdir: /elsewhere/.git/worktrees/main''))) ''.bare''"
    by (simp add: js_trim_def js_whitespace_def startsWith_def)
  have linkage: "\<not> existsSync ?E (join [''/repo/worktrees/main'', ''.git'']) ()
       \<or> isl (readFileSync ?E (join [''/repo/worktrees/main'', ''.git'']) ())
       \<or> (\<exists>raw. readFileSync ?E (join [''/repo/worktrees/main'', ''.git'']) () = Inr raw
             \<and> (\<not> startsWith (js_trim raw) ''gitdir:''
                  \<or> \<not> includes_str (js_trim (drop (length ''gitdir:'') (js_trim raw))) ''.bare''))"
    using rd nb by (simp add: join_demo)
  have cl: "command_line (command_bootstrap ''pnpm install'' (Some ''/repo/worktrees/main'')) = ''pnpm install''"
    by (simp add: command_bootstrap_def)
  from C5_foreign_worktree_rejected [OF l demo_root rem p w1 found inside linkage] rd nb cl
  show ?thesis by blast
qed

section \<open>Corepack and the installation\<close>

lemma worktrees_root_main_string:
  assumes "js_get_optional (js_get_optional config ''worktrees'') ''root'' = JStr r"
  shows "ebind (ebind (js_get config ''worktrees'') (\<lambda>w. js_get w ''root''))
     (\<lambda>root. join_values [JStr R, root, JStr ''main'']) = Inr (join [R, r, ''main''])"
proof -
  from assms have "js_get_optional (js_get_optional config ''worktrees'') ''root'' \<noteq> JUndefined"
    by simp
  then have 1: "js_get (js_get_optional config ''worktrees'') ''root'' = Inr (JStr r)"
    using assms js_get_defined [of "js_get_optional config ''worktrees''" "''root''" "''root''"] by simp
  have "js_get_optional config ''worktrees'' \<noteq> JUndefined"
    using assms by auto
  then have 2: "js_get config ''worktrees'' = Inr (js_get_optional config ''worktrees'')"
    by (rule js_get_defined)
  from 1 2 show ?thesis
    by (simp add: ebind_def join_values_def)
qed

lemma createWorktree_bootstrap_absent:
  assumes root: "js_get_optional (js_get_optional config ''worktrees'') ''root'' = JStr root"
    and remote: "js_get_optional (js_get_optional config ''codebase'') ''remote'' = JStr remote"
    and branch: "to_string (number_to_string sys)
        (js_get_optional (js_get_optional config ''codebase'') ''defaultBranch'') = Inr branch"
    and absent: "\<not> existsSync sys (join [join [META_REPO_ROOT sys, root], ''main'']) (world s)"
  shows "createWorktree_bootstrap sys config s =
     (case execSync sys (command_bootstrap
         (git_worktree_add (BARE_PATH sys) (join [join [META_REPO_ROOT sys, root], ''main'']) branch)
         None) (world s) of (r, w') \<Rightarrow>
      ((case r of Inl e \<Rightarrow> Throw (Error (failure_text e)) | Inr out \<Rightarrow> Ret ()),
       s\<lparr>world := w',
         cmds := cmds s @ [command_bootstrap
           (git_worktree_add (BARE_PATH sys) (join [join [META_REPO_ROOT sys, root], ''main'']) branch)
           None],
         console := console s @
           (Log, Text (''Creating main worktree for branch '' @ [CHR 0x27] @ branch
              @ [CHR 0x27] @ ''...''))
           # (case r of Inl e \<Rightarrow> [] | Inr out \<Rightarrow> [(Log, Text ''Main worktree created successfully.'')])\<rparr>))"
proof -
  from remote have "js_get_optional (js_get_optional config ''codebase'') ''remote'' \<noteq> JUndefined"
    by simp
  note d = codebase_field [OF this, of "''defaultBranch''"]
  obtain r w' where e: "execSync sys (command_bootstrap
         (git_worktree_add (BARE_PATH sys) (join [join [META_REPO_ROOT sys, root], ''main'']) branch)
         None) (world s) = (r, w')"
    by force
  show ?thesis
    using absent e
    by (cases r)
       (simp_all add: createWorktree_bootstrap_def worktrees_root_string [OF root] d branch
        run_bootstrap_def prog_defs Let_def)
qed

text \<open>
  Claim C6. Take a bootstrap run that reaches the step enabling corepack: the
  configuration loads, its default branch converts to a string (the conversion in the
  template literals does not throw), the bare repository is there or its clone succeeds,
  and the main worktree is there and valid or its creation succeeds. Whatever \<^verbatim>\<open>corepack enable\<close> does,
  \<^verbatim>\<open>pnpm install\<close> is the next and last command, run in the main worktree; when
  \<^verbatim>\<open>corepack enable\<close> fails, the warning is printed. The exit code of the process is 1 when
  \<^verbatim>\<open>pnpm install\<close> fails and 0 when it succeeds.
\<close>

theorem C6_corepack_tolerated_install_fatal:
  assumes load: "loadConfig_bootstrap sys (initial w) = (Ret config, s1)"
    and root: "js_get_optional (js_get_optional config ''worktrees'') ''root'' = JStr root"
    and remote: "js_get_optional (js_get_optional config ''codebase'') ''remote'' = JStr remote"
    and branch: "to_string (number_to_string sys)
        (js_get_optional (js_get_optional config ''codebase'') ''defaultBranch'') = Inr branch"
    and main: "mainWorktreePath = join [join [META_REPO_ROOT sys, root], ''main'']"
    and bare: "existsSync sys (BARE_PATH sys) w \<and> w1 = w
       \<or> \<not> existsSync sys (BARE_PATH sys) w
         \<and> execSync sys (command_bootstrap
              (''git clone --bare '' @ quoted remote @ '' '' @ quoted (BARE_PATH sys)) None) w
            = (Inr cloned, w1)"
    and tree: "existsSync sys mainWorktreePath w1
         \<and> execSync sys (command_bootstrap (git_rev_parse mainWorktreePath) None) w1 = (Inr inside, w2)
         \<and> existsSync sys (join [mainWorktreePath, ''.git'']) w2
         \<and> readFileSync sys (join [mainWorktreePath, ''.git'']) w2 = Inr raw
         \<and> startsWith (js_trim raw) ''gitdir:''
         \<and> includes_str (js_trim (drop (length ''gitdir:'') (js_trim raw))) ''.bare''
       \<or> \<not> existsSync sys mainWorktreePath w1
         \<and> execSync sys (command_bootstrap
              (git_worktree_add (BARE_PATH sys) mainWorktreePath branch) None) w1
            = (Inr added, w2)"
    and corepack: "execSync sys (command_bootstrap ''corepack enable'' None) w2 = (rc, w3)"
    and install: "execSync sys (command_bootstrap ''pnpm install'' (Some mainWorktreePath)) w3 = (ri, w4)"
  shows "exit_code (fst (main_bootstrap sys (initial w))) = (if isl ri then 1 else 0)
    \<and> (isl rc \<longrightarrow>
         (Warn, Text (''Warning: Failed to enable corepack. You may need to run ''
            @ [CHR 0x27] @ ''corepack enable'' @ [CHR 0x27] @ '' manually.''))
           \<in> set (console (snd (main_bootstrap sys (initial w)))))
    \<and> (\<exists>before. cmds (snd (main_bootstrap sys (initial w))) =
          before @ [command_bootstrap ''corepack enable'' None,
                    command_bootstrap ''pnpm install'' (Some mainWorktreePath)])
    \<and> world (snd (main_bootstrap sys (initial w))) = w4"
proof -
  have l: "\<And>t. world t = w \<Longrightarrow> loadConfig_bootstrap sys t = (Ret config, t)"
    using loadConfig_bootstrap_any_state [OF load] by (simp add: initial_def)
  from remote have "js_get_optional (js_get_optional config ''codebase'') ''remote'' \<noteq> JUndefined"
    by simp
  note cf = codebase_field [OF this]
  note cwe = createWorktree_bootstrap_existing [OF root remote]
  note cwa = createWorktree_bootstrap_absent [OF root remote branch]
  note inst = installDependencies_bootstrap_apply [OF root]
  note ev = l cf remote branch cloneBareRepo_apply enableCorepack_apply inst
    verifyWorktreePointsToOurBare_apply worktrees_root_main_string [OF root]
    prog_defs initial_def exit_code_def
  from bare tree show ?thesis
  proof (elim disjE conjE)
    assume "existsSync sys (BARE_PATH sys) w" "w1 = w" "existsSync sys mainWorktreePath w1"
      "execSync sys (command_bootstrap (git_rev_parse mainWorktreePath) None) w1 = (Inr inside, w2)"
      "existsSync sys (join [mainWorktreePath, ''.git'']) w2"
      "readFileSync sys (join [mainWorktreePath, ''.git'']) w2 = Inr raw"
      "startsWith (js_trim raw) ''gitdir:''"
      "includes_str (js_trim (drop (length ''gitdir:'') (js_trim raw))) ''.bare''"
    with corepack install show ?thesis
      unfolding main_bootstrap_def main
      by (cases rc; cases ri) (simp_all add: ev cwe)
  next
    assume "existsSync sys (BARE_PATH sys) w" "w1 = w" "\<not> existsSync sys mainWorktreePath w1"
      "execSync sys (command_bootstrap
              (git_worktree_add (BARE_PATH sys) mainWorktreePath branch) None) w1
            = (Inr added, w2)"
    with corepack install show ?thesis
      unfolding main_bootstrap_def main
      by (cases rc; cases ri) (simp_all add: ev cwa)
  next
    assume "\<not> existsSync sys (BARE_PATH sys) w"
      "execSync sys (command_bootstrap
              (''git clone --bare '' @ quoted remote @ '' '' @ quoted (BARE_PATH sys)) None) w
            = (Inr cloned, w1)"
      "existsSync sys mainWorktreePath w1"
      "execSync sys (command_bootstrap (git_rev_parse mainWorktreePath) None) w1 = (Inr inside, w2)"
      "existsSync sys (join [mainWorktreePath, ''.git'']) w2"
      "readFileSync sys (join [mainWorktreePath, ''.git'']) w2 = Inr raw"
      "startsWith (js_trim raw) ''gitdir:''"
      "includes_str (js_trim (drop (length ''gitdir:'') (js_trim raw))) ''.bare''"
    with corepack install show ?thesis
      unfolding main_bootstrap_def main
      by (cases rc; cases ri) (simp_all add: ev cwe)
  next
    assume "\<not> existsSync sys (BARE_PATH sys) w"
      "execSync sys (command_bootstrap
              (''git clone --bare '' @ quoted remote @ '' '' @ quoted (BARE_PATH sys)) None) w
            = (Inr cloned, w1)"
      "\<not> existsSync sys mainWorktreePath w1"
      "execSync sys (command_bootstrap
              (git_worktree_add (BARE_PATH sys) mainWorktreePath branch) None) w1
            = (Inr added, w2)"
    with corepack install show ?thesis
      unfolding main_bootstrap_def main
      by (cases rc; cases ri) (simp_all add: ev cwa)
  qed
qed

text \<open>
  Witness for C6: the bare repository is there, the main worktree is created, corepack
  cannot be enabled and the installation succeeds. The run ends with exit code 0 and the
  warning on the console.
\<close>

theorem C6_corepack_tolerated_install_fatal_witness:
  "fst (execSync (demo_sys [''/repo/.bare''] [(''/repo/project.config.json'', demo_config_text)]
          [''corepack enable''])
        (command_bootstrap ''corepack enable'' None) ())
     = Inl \<lparr>stderr = Some ''failed'', message = None\<rparr>
   \<and> exit_code (fst (main_bootstrap
        (demo_sys [''/repo/.bare''] [(''/repo/project.config.json'', demo_config_text)]
          [''corepack enable'']) (initial ()))) = 0
   \<and> (Warn, Text (''Warning: Failed to enable corepack. You may need to run ''
            @ [CHR 0x27] @ ''corepack enable'' @ [CHR 0x27] @ '' manually.''))
        \<in> set (console (snd (main_bootstrap
        (demo_sys [''/repo/.bare''] [(''/repo/project.config.json'', demo_config_text)]
          [''corepack enable'']) (initial ()))))"
proof -
  let ?E = "demo_sys [''/repo/.bare''] [(''/repo/project.config.json'', demo_config_text)]
          [''corepack enable'']"
  let ?c = "JObj [(''codebase'', JObj [(''remote'', JStr ''git@host:org/repo.git''),
                                        (''defaultBranch'', JStr ''main'')]),
                   (''worktrees'', JObj [(''root'', JStr ''worktrees'')])]"
  have l: "loadConfig_bootstrap ?E (initial ()) = (Ret ?c, initial ())"
    by (rule demo_loadConfig_bootstrap)
  have rem: "js_get_optional (js_get_optional ?c ''codebase'') ''remote'' = JStr ''git@host:org/repo.git''"
    by (simp add: own_property_def)
  have p: "''/repo/worktrees/main'' = join [join [META_REPO_ROOT ?E, ''worktrees''], ''main'']"
    by (simp add: demo_defs)
  have bare: "existsSync ?E (BARE_PATH ?E) () \<and> () = ()
       \<or> \<not> existsSync ?E (BARE_PATH ?E) ()
         \<and> execSync ?E (command_bootstrap
              (''git clone --bare '' @ quoted ''git@host:org/repo.git'' @ '' '' @ quoted (BARE_PATH ?E)) None) ()
            = (Inr [], ())"
    by (simp add: demo_defs)
  have br: "to_string (number_to_string ?E)
        (js_get_optional (js_get_optional ?c ''codebase'') ''defaultBranch'') = Inr ''main''"
    by (simp add: own_property_def)
  have add: "execSync ?E (command_bootstrap
              (git_worktree_add (BARE_PATH ?E) ''/repo/worktrees/main'' ''main'') None) ()
            = (Inr [], ())"
    by (simp add: demo_sys_def command_bootstrap_def git_worktree_add_def)
  have absent: "\<not> existsSync ?E ''/repo/worktrees/main'' ()"
    by (simp add: demo_defs)
  from add absent
  have tree: "existsSync ?E ''/repo/worktrees/main'' ()
         \<and> execSync ?E (command_bootstrap (git_rev_parse ''/repo/worktrees/main'') None) () = (Inr [], ())
         \<and> existsSync ?E (join [''/repo/worktrees/main'', ''.git'']) ()
         \<and> readFileSync ?E (join [''/repo/worktrees/main'', ''.git'']) () = Inr []
         \<and> startsWith (js_trim []) ''gitdir:''
         \<and> includes_str (js_trim (drop (length ''gitdir:'') (js_trim []))) ''.bare''
       \<or> \<not> existsSync ?E ''/repo/worktrees/main'' ()
         \<and> execSync ?E (command_bootstrap
              (git_worktree_add (BARE_PATH ?E) ''/repo/worktrees/main'' ''main'') None) ()
            = (Inr [], ())"
    by blast
  have corepack: "execSync ?E (command_bootstrap ''corepack enable'' None) ()
      = (Inl \<lparr>stderr = Some ''failed'', message = None\<rparr>, ())"
    by (simp add: demo_sys_def command_bootstrap_def)
  have install: "execSync ?E (command_bootstrap ''pnpm install'' (Some ''/repo/worktrees/main'')) ()
      = (Inr [], ())"
    by (simp add: demo_sys_def command_bootstrap_def)
  from C6_corepack_tolerated_install_fatal [OF l demo_root rem br p bare tree corepack install] corepack
  show ?thesis by simp
qed

section \<open>Normalised paths\<close>

lemma split_slash_not_Nil: "split_slash s \<noteq> []"
  by (induction s) (auto split: list.splits)

lemma split_slash_no_slash: "CHR ''/'' \<notin> set s \<Longrightarrow> split_slash s = [s]"
  by (induction s) auto

lemma split_slash_append:
  "split_slash (x @ CHR ''/'' # y) = split_slash x @ split_slash y"
proof (induction x)
  case Nil
  show ?case by simp
next
  case (Cons c x)
  obtain s ss where s: "split_slash x = s # ss"
    using split_slash_not_Nil [of x] by (cases "split_slash x") auto
  with Cons show ?case by simp
qed

lemma split_slash_segments: "s \<in> set (split_slash p) \<Longrightarrow> CHR ''/'' \<notin> set s"
proof (induction p arbitrary: s)
  case Nil
  then show ?case by simp
next
  case (Cons c p)
  obtain t ts where t: "split_slash p = t # ts"
    using split_slash_not_Nil [of p] by (cases "split_slash p") auto
  with Cons show ?case by (auto split: if_splits)
qed

lemma split_join:
  "segs \<noteq> [] \<Longrightarrow> \<forall>s \<in> set segs. CHR ''/'' \<notin> set s \<Longrightarrow>
   split_slash (join_with ''/'' segs) = segs"
proof (induction "''/''" segs rule: join_with.induct)
  case 1
  then show ?case by simp
next
  case (2 s)
  then show ?case by (simp add: split_slash_no_slash)
next
  case (3 s t ss)
  then show ?case
    by (simp add: split_slash_append split_slash_no_slash)
qed

lemma join_with_Nil_iff:
  "\<forall>s \<in> set segs. s \<noteq> [] \<Longrightarrow> join_with sep segs = [] \<longleftrightarrow> segs = []"
  by (induction sep segs rule: join_with.induct) auto

lemma hd_join_with:
  "segs \<noteq> [] \<Longrightarrow> \<forall>s \<in> set segs. s \<noteq> [] \<Longrightarrow> hd (join_with sep segs) = hd (hd segs)"
  by (induction sep segs rule: join_with.induct) auto

lemma last_join_with:
  "segs \<noteq> [] \<Longrightarrow> \<forall>s \<in> set segs. s \<noteq> [] \<Longrightarrow> last (join_with sep segs) = last (last segs)"
proof (induction sep segs rule: join_with.induct)
  case (3 sep s t ss)
  then have "join_with sep (t # ss) \<noteq> []"
    using join_with_Nil_iff [of "t # ss" sep] by auto
  with 3 show ?case by simp
qed simp_all

lemma dropWhile_butlast_subset: "set (dropWhile p (butlast xs)) \<subseteq> set (dropWhile p xs)"
proof (induction xs)
  case Nil
  show ?case by simp
next
  case (Cons x xs)
  show ?case
  proof (cases "xs = []")
    case True
    then show ?thesis by simp
  next
    case False
    with Cons show ?thesis
      by (auto dest: in_set_butlastD)
  qed
qed

lemma dotdot_prefix:
  assumes "''..'' \<notin> set (dropWhile (\<lambda>s. s = ''..'') (xs @ ''..'' # ys))"
  shows "\<forall>x \<in> set xs. x = ''..''"
proof (rule ccontr)
  assume "\<not> (\<forall>x \<in> set xs. x = ''..'')"
  then obtain x where "x \<in> set xs" "x \<noteq> ''..''" by blast
  then have "dropWhile (\<lambda>s. s = ''..'') (xs @ ''..'' # ys)
      = dropWhile (\<lambda>s. s = ''..'') xs @ ''..'' # ys"
    by (intro dropWhile_append1) auto
  with assms show False by simp
qed

lemma dotdot_last:
  assumes "''..'' \<notin> set (dropWhile (\<lambda>s. s = ''..'') res)" and "res = [] \<or> last res = ''..''"
  shows "\<forall>x \<in> set res. x = ''..''"
proof (cases "res = []")
  case True
  then show ?thesis by simp
next
  case False
  with assms(2) have "res = butlast res @ [''..'']"
    by (metis append_butlast_last_id)
  then obtain ys where r: "res = ys @ [''..'']" ..
  from assms(1) have "\<forall>x \<in> set ys. x = ''..''"
    unfolding r by (rule dotdot_prefix)
  then show ?thesis unfolding r by simp
qed

lemma step_normal:
  assumes "segments_normal a res" and "CHR ''/'' \<notin> set seg"
  shows "segments_normal a (normalize_step a res seg)"
proof -
  from assms(1) have ok: "list_all segment_ok res"
    and dd: "''..'' \<notin> set (dropWhile (\<lambda>s. s = ''..'') res)"
    and ab: "a \<or> ''..'' \<notin> set res"
    by (simp_all add: segments_normal_def)
  consider (skip) "seg = [] \<or> seg = ''.''"
    | (pop) "seg = ''..''" "res \<noteq> []" "last res \<noteq> ''..''"
    | (up) "seg = ''..''" "res = [] \<or> last res = ''..''" "a"
    | (stay) "seg = ''..''" "res = [] \<or> last res = ''..''" "\<not> a"
    | (push) "seg \<noteq> []" "seg \<noteq> ''.''" "seg \<noteq> ''..''"
    by blast
  then show ?thesis
  proof cases
    case skip
    with assms(1) show ?thesis by (auto simp: normalize_step_def)
  next
    case pop
    then have "normalize_step a res seg = butlast res"
      by (simp add: normalize_step_def)
    moreover have "list_all segment_ok (butlast res)"
      using ok by (auto simp: list_all_iff dest: in_set_butlastD)
    moreover have "''..'' \<notin> set (dropWhile (\<lambda>s. s = ''..'') (butlast res))"
      using dd dropWhile_butlast_subset by fastforce
    moreover have "a \<or> ''..'' \<notin> set (butlast res)"
      using ab by (auto dest: in_set_butlastD)
    ultimately show ?thesis by (simp add: segments_normal_def)
  next
    case up
    then have "normalize_step a res seg = res @ [''..'']"
      by (auto simp: normalize_step_def)
    moreover from dotdot_last [OF dd up(2)] have "\<forall>x \<in> set (res @ [''..'']). x = ''..''"
      by simp
    then have "dropWhile (\<lambda>s. s = ''..'') (res @ [''..'']) = []"
      unfolding dropWhile_eq_Nil_conv .
    moreover have "segment_ok ''..''"
      by (simp add: segment_ok_def)
    ultimately show ?thesis
      using ok up(3) by (simp add: segments_normal_def)
  next
    case stay
    then have "normalize_step a res seg = res"
      by (auto simp: normalize_step_def)
    with assms(1) show ?thesis by simp
  next
    case push
    then have "normalize_step a res seg = res @ [seg]"
      by (simp add: normalize_step_def)
    moreover have "segment_ok seg"
      using push assms(2) by (simp add: segment_ok_def)
    moreover have "''..'' \<notin> set (dropWhile (\<lambda>s. s = ''..'') (res @ [seg]))"
    proof (cases "\<forall>x \<in> set res. x = ''..''")
      case True
      then have "dropWhile (\<lambda>s. s = ''..'') (res @ [seg]) = dropWhile (\<lambda>s. s = ''..'') [seg]"
        by (intro dropWhile_append2) auto
      with push(3) show ?thesis by simp
    next
      case False
      then obtain x where "x \<in> set res" "x \<noteq> ''..''" by blast
      then have "dropWhile (\<lambda>s. s = ''..'') (res @ [seg]) = dropWhile (\<lambda>s. s = ''..'') res @ [seg]"
        by (intro dropWhile_append1) auto
      with dd push(3) show ?thesis by simp
    qed
    ultimately show ?thesis
      using ok ab push(3) by (auto simp: segments_normal_def)
  qed
qed

lemma fold_normal:
  "segments_normal a res \<Longrightarrow> \<forall>s \<in> set segs. CHR ''/'' \<notin> set s \<Longrightarrow>
   segments_normal a (foldl (normalize_step a) res segs)"
  by (induction segs arbitrary: res) (simp_all add: step_normal)

lemma fold_id:
  "segments_normal a (res @ segs) \<Longrightarrow> foldl (normalize_step a) res segs = res @ segs"
proof (induction segs arbitrary: res)
  case Nil
  show ?case by simp
next
  case (Cons seg segs)
  from Cons.prems have ok: "segment_ok seg"
    and dd: "''..'' \<notin> set (dropWhile (\<lambda>s. s = ''..'') (res @ seg # segs))"
    and ab: "a \<or> ''..'' \<notin> set (res @ seg # segs)"
    by (simp_all add: segments_normal_def)
  have "normalize_step a res seg = res @ [seg]"
  proof (cases "seg = ''..''")
    case True
    with dd have "\<forall>x \<in> set res. x = ''..''"
      using dotdot_prefix by blast
    then have "res = [] \<or> last res = ''..''"
      by (cases res rule: rev_cases) auto
    moreover from True ab have a by simp
    ultimately show ?thesis using True by (auto simp: normalize_step_def)
  next
    case False
    with ok show ?thesis by (simp add: normalize_step_def segment_ok_def)
  qed
  moreover from Cons.prems have "segments_normal a ((res @ [seg]) @ segs)"
    by simp
  ultimately show ?case
    using Cons.IH [of "res @ [seg]"] by simp
qed

lemma normalize_small:
  "normalize ''/'' = ''/''" "normalize ''./'' = ''./''" "normalize ''.'' = ''.''"
  by (simp_all add: normalize_def normalizeString_def normalize_step_def)

lemma normalize_step_empty: "normalize_step a res [] = res"
  by (simp add: normalize_step_def)

lemma segment_ok_ends:
  assumes "segment_ok s"
  shows "hd s \<noteq> CHR ''/'' \<and> last s \<noteq> CHR ''/''"
proof -
  from assms have "s \<noteq> []" and n: "CHR ''/'' \<notin> set s"
    by (simp_all add: segment_ok_def)
  then have "hd s \<in> set s" and "last s \<in> set s"
    by simp_all
  with n show ?thesis by metis
qed

lemma normalize_cases:
  assumes "p \<noteq> []"
  obtains (small) "normalize p = ''/'' \<or> normalize p = ''./'' \<or> normalize p = ''.''"
  | (segments) segs where "segs \<noteq> []" "segments_normal (hd p \<noteq> CHR ''/'') segs"
      "normalize p = (if hd p = CHR ''/'' then ''/'' else []) @ join_with ''/'' segs
                      @ (if last p = CHR ''/'' then ''/'' else [])"
proof -
  define a where "a = (hd p \<noteq> CHR ''/'')"
  define segs where "segs = foldl (normalize_step a) [] (split_slash p)"
  have "segments_normal a []"
    by (simp add: segments_normal_def)
  then have nf: "segments_normal a segs"
    unfolding segs_def by (rule fold_normal) (simp add: split_slash_segments)
  then have ne: "\<forall>s \<in> set segs. s \<noteq> []"
    by (auto simp: segments_normal_def list_all_iff segment_ok_def)
  have ns: "normalizeString p a = join_with ''/'' segs"
    by (simp add: normalizeString_def segs_def)
  show ?thesis
  proof (cases "segs = []")
    case True
    with assms ns have "normalize p = ''/'' \<or> normalize p = ''./'' \<or> normalize p = ''.''"
      by (simp add: normalize_def Let_def a_def [symmetric])
    then show ?thesis by (rule small)
  next
    case False
    with ne have "join_with ''/'' segs \<noteq> []"
      by (simp add: join_with_Nil_iff)
    with assms ns have "normalize p = (if hd p = CHR ''/'' then ''/'' else []) @ join_with ''/'' segs
                      @ (if last p = CHR ''/'' then ''/'' else [])"
      by (simp add: normalize_def Let_def a_def [symmetric])
    with False nf show ?thesis
      unfolding a_def by (rule segments)
  qed
qed

lemma normalize_not_Nil: "normalize p \<noteq> []"
proof (cases "p = []")
  case True
  then show ?thesis by (simp add: normalize_def)
next
  case False
  then show ?thesis
  proof (cases rule: normalize_cases)
    case small
    then show ?thesis by auto
  next
    case (segments segs)
    then have "join_with ''/'' segs \<noteq> []"
      using join_with_Nil_iff [of segs "''/''"]
      by (auto simp: segments_normal_def list_all_iff segment_ok_def)
    with segments(3) show ?thesis by simp
  qed
qed

lemma normalize_segments_fixed:
  assumes ne: "segs \<noteq> []" and nf: "segments_normal (\<not> ab) segs"
    and q: "q = (if ab then ''/'' else []) @ join_with ''/'' segs @ (if tr then ''/'' else [])"
  shows "normalize q = q"
proof -
  let ?J = "join_with ''/'' segs"
  from nf have ok: "\<forall>s \<in> set segs. segment_ok s"
    by (simp add: segments_normal_def list_all_iff)
  then have nonempty: "\<forall>s \<in> set segs. s \<noteq> []" and noslash: "\<forall>s \<in> set segs. CHR ''/'' \<notin> set s"
    by (simp_all add: segment_ok_def)
  from ne nonempty have J: "?J \<noteq> []"
    by (simp add: join_with_Nil_iff)
  have hdJ: "hd ?J \<noteq> CHR ''/''"
    using hd_join_with [OF ne nonempty, of "''/''"] segment_ok_ends [of "hd segs"] ok ne by simp
  have lastJ: "last ?J \<noteq> CHR ''/''"
    using last_join_with [OF ne nonempty, of "''/''"] segment_ok_ends [of "last segs"] ok ne by simp
  have qne: "q \<noteq> []" using J q by simp
  have hdq: "(hd q = CHR ''/'') = ab"
    using q J hdJ by (cases ab) simp_all
  have lastq: "(last q = CHR ''/'') = tr"
    using q J lastJ by (cases tr) simp_all
  have splitJ: "split_slash ?J = segs"
    using ne noslash by (rule split_join)
  have splitJt: "split_slash (?J @ (if tr then ''/'' else [])) = segs @ (if tr then [[]] else [])"
    using splitJ split_slash_append [of ?J "[]"] by simp
  have splitq: "split_slash q = (if ab then [[]] else []) @ segs @ (if tr then [[]] else [])"
    using splitJt split_slash_append [of "[]" "?J @ (if tr then ''/'' else [])"] q by simp
  have "foldl (normalize_step (\<not> ab)) [] segs = segs"
    using fold_id [of "\<not> ab" "[]" segs] nf by simp
  then have "foldl (normalize_step (\<not> ab)) [] (split_slash q) = segs"
    unfolding splitq by (cases ab; cases tr) (simp_all add: normalize_step_empty)
  then have "normalizeString q (\<not> ab) = ?J"
    by (simp add: normalizeString_def)
  with qne hdq lastq J have "normalize q = (if ab then ''/'' else []) @ ?J @ (if tr then ''/'' else [])"
    by (simp add: normalize_def Let_def)
  with q show ?thesis by simp
qed

lemma normalize_idem: "normalize (normalize p) = normalize p"
proof (cases "p = []")
  case True
  then have "normalize p = ''.''" by (simp add: normalize_def)
  then show ?thesis by (simp add: normalize_small)
next
  case False
  then show ?thesis
  proof (cases rule: normalize_cases)
    case small
    then show ?thesis by (auto simp: normalize_small)
  next
    case (segments segs)
    from segments(2) have "segments_normal (\<not> (hd p = CHR ''/'')) segs" by simp
    with segments(1) show ?thesis
      using segments(3) by (rule normalize_segments_fixed)
  qed
qed

lemma join_with_not_Nil:
  "parts \<noteq> [] \<Longrightarrow> \<forall>s \<in> set parts. s \<noteq> [] \<Longrightarrow> join_with sep parts \<noteq> []"
  by (simp add: join_with_Nil_iff)

lemma join_not_Nil: "join args \<noteq> []"
  by (simp add: join_def Let_def normalize_not_Nil)

lemma join_normalized: "normalize (join args) = join args"
  by (simp add: join_def Let_def normalize_idem normalize_small)

lemma join_empty_segment: "join [join args, []] = join args"
  using join_not_Nil [of args] by (simp add: join_def [of "[join args, []]"] join_normalized)

section \<open>What a run prints\<close>

lemma grows_return: "console_grows (return x)"
  and grows_throw: "console_grows (throw e)"
  and grows_exit: "console_grows (process_exit n)"
  and grows_write: "console_grows (console_write l t)"
  and grows_log: "console_grows (console_log u)"
  and grows_warn: "console_grows (console_warn u)"
  and grows_error: "console_grows (console_error u)"
  and grows_exists: "console_grows (fs_exists sys path)"
  by (simp_all add: console_grows_def prog_defs)

lemma grows_of_result: "console_grows (of_result r)"
  by (cases r) (simp_all add: console_grows_def prog_defs)

lemma grows_run_command: "console_grows (run_command sys c)"
  by (simp add: console_grows_def run_command_def split: prod.splits sum.splits)

lemma grows_bind:
  assumes "console_grows m" and "\<And>x. console_grows (f x)"
  shows "console_grows (bind m f)"
  unfolding console_grows_def
proof
  fix s
  obtain r s' where m: "m s = (r, s')" by force
  from assms(1) obtain l1 where l1: "console s' = console s @ l1"
    unfolding console_grows_def using m by (metis snd_conv)
  show "\<exists>lines. console (snd (bind m f s)) = console s @ lines"
  proof (cases r)
    case (Ret x)
    from assms(2) [of x] obtain l2 where "console (snd (f x s')) = console s' @ l2"
      unfolding console_grows_def by blast
    with l1 m Ret show ?thesis by (simp add: bind_def)
  next
    case (Exit n)
    with l1 m show ?thesis by (simp add: bind_def)
  next
    case (Throw e)
    with l1 m show ?thesis by (simp add: bind_def)
  qed
qed

lemma grows_try_catch:
  assumes "console_grows m" and "\<And>e. console_grows (h e)"
  shows "console_grows (try_catch m h)"
  unfolding console_grows_def
proof
  fix s
  obtain r s' where m: "m s = (r, s')" by force
  from assms(1) obtain l1 where l1: "console s' = console s @ l1"
    unfolding console_grows_def using m by (metis snd_conv)
  show "\<exists>lines. console (snd (try_catch m h s)) = console s @ lines"
  proof (cases r)
    case (Ret x)
    with l1 m show ?thesis by (simp add: try_catch_def)
  next
    case (Exit n)
    with l1 m show ?thesis by (simp add: try_catch_def)
  next
    case (Throw e)
    from assms(2) [of e] obtain l2 where "console (snd (h e s')) = console s' @ l2"
      unfolding console_grows_def by blast
    with l1 m Throw show ?thesis by (simp add: try_catch_def)
  qed
qed

lemma grows_block_Nil: "console_grows (block [])"
  by (simp add: grows_return)

lemma grows_block_Cons:
  "console_grows m \<Longrightarrow> console_grows (block ms) \<Longrightarrow> console_grows (block (m # ms))"
  by (simp add: grows_bind)

lemma grows_block_then:
  "console_grows (block ms) \<Longrightarrow> console_grows n \<Longrightarrow> console_grows (block_then ms n)"
  by (simp add: block_then_def grows_bind)

lemma grows_if:
  "console_grows m \<Longrightarrow> console_grows n \<Longrightarrow> console_grows (if b then m else n)"
  by simp

lemma grows_run_wt: "console_grows (run_wt sys c d b)"
  by (simp add: run_wt_def grows_run_command)

lemmas grows_intros = grows_return grows_throw grows_exit grows_write grows_log grows_warn
  grows_error grows_exists grows_of_result grows_run_command grows_run_wt
  grows_bind grows_try_catch grows_block_Nil grows_block_Cons grows_block_then grows_if

lemma grows_fetchLatest: "console_grows (fetchLatest sys)"
  unfolding fetchLatest_def by (intro grows_intros)

lemma grows_branchExists: "console_grows (branchExists sys branch t)"
  unfolding branchExists_def by (intro grows_intros)

lemma grows_createWorktree_wt: "console_grows (createWorktree_wt sys branch path new)"
  unfolding createWorktree_wt_def by (intro grows_intros)

lemma grows_createTrackingBranch: "console_grows (createTrackingBranch sys branch)"
  unfolding createTrackingBranch_def by (intro grows_intros)

lemma grows_installDependencies_wt: "console_grows (installDependencies_wt sys path)"
  unfolding installDependencies_wt_def by (intro grows_intros)

lemma grows_resolve_branch: "console_grows (resolve_branch sys branch path)"
  unfolding resolve_branch_def
  by (intro grows_intros grows_branchExists grows_createWorktree_wt grows_createTrackingBranch)

lemma block_log_first:
  assumes "console_grows (block ms)"
  shows "\<exists>lines. console (snd (block (console_log t # ms) s)) = console s @ (Log, Text t) # lines"
proof -
  from assms obtain lines where
    "console (snd (block ms (s\<lparr>console := console s @ [(Log, Text t)]\<rparr>)))
       = console (s\<lparr>console := console s @ [(Log, Text t)]\<rparr>) @ lines"
    unfolding console_grows_def by blast
  then show ?thesis
    by (simp add: bind_def console_log_def console_write_def)
qed

lemma bind_Ret_apply: "m s = (Ret x, s') \<Longrightarrow> bind m f s = f x s'"
  by (simp add: bind_def)

lemma bind_of_result_Inr: "bind (of_result (Inr x)) f = f x"
  by (simp add: bind_def of_result_def return_def)

lemma loadConfig_wt_first_line:
  assumes "loadConfig_wt sys (initial w) = (Exit n, s1)"
  shows "take 1 (console s1) \<noteq> [(Err, Text ''Usage: create-worktree <branch-name>'')]"
  using assms
  by (auto simp: loadConfig_wt_apply parse_failed_apply initial_def split: if_splits sum.splits)

lemma main_wt_first_line:
  assumes "args = branch # rest"
  shows "take 1 (console (snd (main_wt sys args (initial w))))
           \<noteq> [(Err, Text ''Usage: create-worktree <branch-name>'')]"
proof -
  obtain r s1 where l: "loadConfig_wt sys (initial w) = (r, s1)" by force
  from loadConfig_wt_frame [OF l] consider
    (exit) "r = Exit 1" | (ret) config where "r = Ret config" "s1 = initial w"
    by auto
  then show ?thesis
  proof cases
    case exit
    with l loadConfig_wt_first_line [of sys w 1 s1] assms show ?thesis
      by (simp add: main_wt_def bind_def)
  next
    case ret
    show ?thesis
    proof (cases "ebind (ebind (js_get config ''worktrees'') (\<lambda>w. js_get w ''root''))
                  (\<lambda>root. join_values [JStr (META_REPO_ROOT sys), root])")
      case (Inl e)
      with l ret assms show ?thesis
        by (simp add: main_wt_def bind_def of_result_def throw_def initial_def)
    next
      case (Inr p)
      have "\<exists>lines. console (snd (main_wt sys args (initial w)))
          = console (initial w) @ (Log, Text (''=== Creating worktree for branch '' @ [CHR 0x27] @ branch
               @ [CHR 0x27] @ '' ==='' @ nl)) # lines"
        unfolding main_wt_def assms
        apply (simp only: list.case bind_Ret_apply [of "loadConfig_wt sys" "initial w", OF l [unfolded ret]] Let_def Inr bind_of_result_Inr)
        apply (rule block_log_first)
        apply (intro grows_intros grows_fetchLatest grows_resolve_branch grows_installDependencies_wt)
        done
      then show ?thesis
        by (auto simp: initial_def)
    qed
  qed
qed

section \<open>The usage error and the empty branch name\<close>

lemma main_wt_empty_branch:
  assumes args: "args = [] # rest"
    and load: "loadConfig_wt sys (initial w) = (Ret config, s1)"
    and root: "js_get_optional (js_get_optional config ''worktrees'') ''root'' = JStr root"
    and bare: "existsSync sys (BARE_PATH sys) w"
  shows "if existsSync sys (join [META_REPO_ROOT sys, root]) w
         then exit_code (fst (main_wt sys args (initial w))) = 1
              \<and> cmds (snd (main_wt sys args (initial w))) = []
              \<and> (Err, Text (''Error: Worktree folder already exists at '' @ join [META_REPO_ROOT sys, root]))
                   \<in> set (console (snd (main_wt sys args (initial w))))
         else \<exists>tail. cmds (snd (main_wt sys args (initial w))) =
                command_wt (git_fetch (BARE_PATH sys)) None False # tail"
proof (cases "existsSync sys (join [META_REPO_ROOT sys, root]) w")
  case True
  note s1 = load [unfolded loadConfig_wt_initial [OF load]]
  from True s1 bare show ?thesis
    unfolding args
    by (simp add: main_wt_def worktrees_root_string [OF root] prog_defs Let_def initial_def
        exit_code_def sanitize_Nil join_empty_segment)
next
  case False
  have p: "join [META_REPO_ROOT sys, root] = join [join [META_REPO_ROOT sys, root], sanitizeBranchName []]"
    by (simp add: sanitize_Nil join_empty_segment)
  obtain rf w1 where fetch: "execSync sys (command_wt (git_fetch (BARE_PATH sys)) None False) w = (rf, w1)"
    by force
  obtain rl w2 where loc: "execSync sys (command_wt
        (git_show_ref (BARE_PATH sys) (''refs/heads/'' @ [])) None True) w1 = (rl, w2)"
    by force
  obtain rr w3 where rem: "execSync sys (command_wt
        (git_show_ref (BARE_PATH sys) (''refs/remotes/origin/'' @ [])) None True) w2 = (rr, w3)"
    by force
  from main_wt_commands [OF args load root p bare False fetch loc rem] False
  show ?thesis by auto
qed

text \<open>
  Claim C10. The usage error is what the run prints first exactly when there is no
  argument; then the process ends with exit code 1 and nothing else happens. An empty
  branch name is an argument like any other: it sanitizes to the empty string, the target
  path is the worktrees root itself, and, the bare repository being there, the existence
  check decides: the run stops with the already-exists error when the worktrees root
  exists, and goes on to fetch when it does not.
\<close>

theorem C10_usage_only_without_arguments:
  "(take 1 (console (snd (main_wt sys args (initial w))))
       = [(Err, Text ''Usage: create-worktree <branch-name>'')] \<longleftrightarrow> args = [])
   \<and> main_wt sys [] (initial w) =
       (Exit 1, \<lparr>world = w, cmds = [], console =
          [(Err, Text ''Usage: create-worktree <branch-name>''),
           (Err, Text ''Example: create-worktree feature/my-feature'')]\<rparr>)
   \<and> sanitizeBranchName [] = []
   \<and> join [join [META_REPO_ROOT sys, root], sanitizeBranchName []] = join [META_REPO_ROOT sys, root]
   \<and> (args = [] # rest
       \<and> loadConfig_wt sys (initial w) = (Ret config, s1)
       \<and> js_get_optional (js_get_optional config ''worktrees'') ''root'' = JStr root
       \<and> existsSync sys (BARE_PATH sys) w \<longrightarrow>
       (if existsSync sys (join [META_REPO_ROOT sys, root]) w
        then exit_code (fst (main_wt sys args (initial w))) = 1
             \<and> cmds (snd (main_wt sys args (initial w))) = []
             \<and> (Err, Text (''Error: Worktree folder already exists at '' @ join [META_REPO_ROOT sys, root]))
                  \<in> set (console (snd (main_wt sys args (initial w))))
        else \<exists>tail. cmds (snd (main_wt sys args (initial w))) =
               command_wt (git_fetch (BARE_PATH sys)) None False # tail))"
proof -
  have a: "main_wt sys [] (initial w) =
       (Exit 1, \<lparr>world = w, cmds = [], console =
          [(Err, Text ''Usage: create-worktree <branch-name>''),
           (Err, Text ''Example: create-worktree feature/my-feature'')]\<rparr>)"
    by (simp add: main_wt_def prog_defs initial_def)
  have b: "take 1 (console (snd (main_wt sys args (initial w))))
       = [(Err, Text ''Usage: create-worktree <branch-name>'')] \<longleftrightarrow> args = []"
  proof (cases args)
    case Nil
    with a show ?thesis by simp
  next
    case (Cons branch rest')
    with main_wt_first_line [OF Cons, of sys w] show ?thesis by simp
  qed
  have c: "sanitizeBranchName [] = []"
    by (rule sanitize_Nil)
  have d: "join [join [META_REPO_ROOT sys, root], sanitizeBranchName []] = join [META_REPO_ROOT sys, root]"
    by (simp add: sanitize_Nil join_empty_segment)
  from a b c d main_wt_empty_branch [of args rest sys w config s1 root] show ?thesis
    by blast
qed

text \<open>
  Witness for C10: the argument is the empty string and the worktrees root exists.
\<close>

theorem C10_usage_only_without_arguments_witness:
  "loadConfig_wt (demo_sys [''/repo/.bare'', ''/repo/worktrees'']
       [(''/repo/project.config.json'', demo_config_text)] []) (initial ())
     = (Ret (JObj [(''codebase'', JObj [(''remote'', JStr ''git@host:org/repo.git''),
                                        (''defaultBranch'', JStr ''main'')]),
                   (''worktrees'', JObj [(''root'', JStr ''worktrees'')])]), initial ())
   \<and> existsSync (demo_sys [''/repo/.bare'', ''/repo/worktrees'']
       [(''/repo/project.config.json'', demo_config_text)] []) ''/repo/.bare'' ()
   \<and> existsSync (demo_sys [''/repo/.bare'', ''/repo/worktrees'']
       [(''/repo/project.config.json'', demo_config_text)] []) ''/repo/worktrees'' ()
   \<and> exit_code (fst (main_wt (demo_sys [''/repo/.bare'', ''/repo/worktrees'']
       [(''/repo/project.config.json'', demo_config_text)] []) [''''] (initial ()))) = 1
   \<and> cmds (snd (main_wt (demo_sys [''/repo/.bare'', ''/repo/worktrees'']
       [(''/repo/project.config.json'', demo_config_text)] []) [''''] (initial ()))) = []
   \<and> (Err, Text ''Error: Worktree folder already exists at /repo/worktrees'')
        \<in> set (console (snd (main_wt (demo_sys [''/repo/.bare'', ''/repo/worktrees'']
       [(''/repo/project.config.json'', demo_config_text)] []) [''''] (initial ()))))
   \<and> take 1 (console (snd (main_wt (demo_sys [''/repo/.bare'', ''/repo/worktrees'']
       [(''/repo/project.config.json'', demo_config_text)] []) [''''] (initial ()))))
        \<noteq> [(Err, Text ''Usage: create-worktree <branch-name>'')]"
proof -
  let ?E = "demo_sys [''/repo/.bare'', ''/repo/worktrees'']
       [(''/repo/project.config.json'', demo_config_text)] []"
  let ?c = "JObj [(''codebase'', JObj [(''remote'', JStr ''git@host:org/repo.git''),
                                        (''defaultBranch'', JStr ''main'')]),
                   (''worktrees'', JObj [(''root'', JStr ''worktrees'')])]"
  have l: "loadConfig_wt ?E (initial ()) = (Ret ?c, initial ())"
    by (rule demo_loadConfig_wt)
  have bare: "existsSync ?E (BARE_PATH ?E) ()" and bare': "existsSync ?E ''/repo/.bare'' ()"
    and root: "existsSync ?E (join [META_REPO_ROOT ?E, ''worktrees'']) ()"
    and root': "existsSync ?E ''/repo/worktrees'' ()"
    and j: "join [META_REPO_ROOT ?E, ''worktrees''] = ''/repo/worktrees''"
    by (simp_all add: demo_defs)
  from C10_usage_only_without_arguments [of ?E "['''']" "()" "''worktrees''" "[]" ?c "initial ()"]
    l demo_root bare root
  have "exit_code (fst (main_wt ?E [''''] (initial ()))) = 1
      \<and> cmds (snd (main_wt ?E [''''] (initial ()))) = []
      \<and> (Err, Text (''Error: Worktree folder already exists at '' @ join [META_REPO_ROOT ?E, ''worktrees'']))
           \<in> set (console (snd (main_wt ?E [''''] (initial ()))))
      \<and> take 1 (console (snd (main_wt ?E [''''] (initial ()))))
        \<noteq> [(Err, Text ''Usage: create-worktree <branch-name>'')]"
    by auto
  with l bare' root' j show ?thesis by simp
qed

end
